theory Spec2Isabelle
  imports Complex_Main "HOL-Library.Multiset"
begin

section \<open>BookFlix: the Express request handlers of server/routes.js\<close>

text \<open>
  Every handler of \<^verbatim>\<open>routes.js\<close> sends at most one SQL statement through
  \<^verbatim>\<open>connection.query\<close> and answers from its callback. A handler is embedded as a
  function from its request parameters and the connection to the response and the
  connection afterwards. The connection carries the tables the statements read, the
  statements issued so far, and the server's answers to the statements that are not
  evaluated relationally here.

  Request parameters are strings, as Express delivers them. The handlers splice them into the
  text of the statement. When every spliced parameter spells a literal (a string without a
  quote between the quotes of the template, an integer where the template has none), the text
  is the one SELECT the template writes, and it is evaluated on the tables. Any other text is
  whatever the parameter makes of it; what the server does with it, to the rows and to the
  tables, is given by the connection.
\<close>

subsection \<open>JavaScript values\<close>

datatype jsval = JSUndefined | JSNull | JSString string | JSNumber int | JSBool bool

datatype number = NaN | Num int

definition digit_val :: "char \<Rightarrow> nat option" where
  "digit_val c = (let k = (of_char c :: nat) in if 48 \<le> k \<and> k \<le> 57 then Some (k - 48) else None)"

fun digits_val :: "nat \<Rightarrow> string \<Rightarrow> nat option" where
  "digits_val acc [] = Some acc"
| "digits_val acc (c # cs) =
     (case digit_val c of None \<Rightarrow> None | Some d \<Rightarrow> digits_val (10 * acc + d) cs)"

definition parse_nat :: "string \<Rightarrow> nat option" where
  "parse_nat s = (if s = [] then None else digits_val 0 s)"

text \<open>A signed decimal integer literal: an optional sign and at least one digit.\<close>

definition parse_int :: "string \<Rightarrow> int option" where
  "parse_int s =
     (case s of
        [] \<Rightarrow> None
      | c # cs \<Rightarrow>
          if c = CHR ''-'' then map_option (\<lambda>n. - int n) (parse_nat cs)
          else if c = CHR ''+'' then map_option int (parse_nat cs)
          else map_option int (parse_nat s))"

text \<open>
  \<^verbatim>\<open>ToNumber\<close> on a string, for the integer literals: the empty string is 0, a signed
  decimal integer is its value. Every other string reads as NaN here (fractions, exponents,
  hexadecimal literals, \<^verbatim>\<open>Infinity\<close> and surrounding white space are not covered).
\<close>

definition ToNumber :: "string \<Rightarrow> number" where
  "ToNumber s = (if s = [] then Num 0 else case parse_int s of None \<Rightarrow> NaN | Some n \<Rightarrow> Num n)"

text \<open>\<^verbatim>\<open>s < k\<close> for a string \<open>s\<close> and a number \<open>k\<close>: false when \<open>s\<close> reads as NaN.\<close>

definition js_lt_number :: "string \<Rightarrow> int \<Rightarrow> bool" where
  "js_lt_number s k = (case ToNumber s of NaN \<Rightarrow> False | Num n \<Rightarrow> n < k)"

text \<open>\<^verbatim>\<open>a < b\<close> for two strings: code units compared from the left, a proper prefix is less.\<close>

fun js_lt_string :: "string \<Rightarrow> string \<Rightarrow> bool" where
  "js_lt_string [] [] = False"
| "js_lt_string [] (b # bs) = True"
| "js_lt_string (a # as) [] = False"
| "js_lt_string (a # as) (b # bs) =
     ((of_char a :: nat) < of_char b \<or> (a = b \<and> js_lt_string as bs))"

text \<open>
  \<^verbatim>\<open>a < b\<close> for two query parameters, each a string or undefined: two strings compare as
  strings; undefined converts to NaN, and a comparison with NaN is false.
\<close>

fun js_lt_param :: "string option \<Rightarrow> string option \<Rightarrow> bool" where
  "js_lt_param (Some a) (Some b) = js_lt_string a b"
| "js_lt_param _ _ = False"

text \<open>\<^verbatim>\<open>x ?? d\<close>\<close>

fun nullish :: "string option \<Rightarrow> string \<Rightarrow> string" where
  "nullish None d = d"
| "nullish (Some s) d = s"

text \<open>Truthiness of a query parameter: undefined and the empty string are falsy.\<close>

fun truthy :: "string option \<Rightarrow> bool" where
  "truthy None = False"
| "truthy (Some s) = (s \<noteq> [])"

text \<open>The decimal spelling of an integer, as it stands in a URL.\<close>

definition digit_char :: "nat \<Rightarrow> char" where
  "digit_char d = char_of (48 + d)"

fun dec_nat :: "nat \<Rightarrow> string" where
  "dec_nat n = (if n < 10 then [digit_char n] else dec_nat (n div 10) @ [digit_char (n mod 10)])"

declare dec_nat.simps [simp del]

definition dec :: "int \<Rightarrow> string" where
  "dec i = (if i < 0 then CHR ''-'' # dec_nat (nat (- i)) else dec_nat (nat i))"

subsection \<open>SQL values, rows, tables\<close>

datatype sqlval = SNull | SInt int | SNum rat | SText string | SBool bool

type_synonym row = "(string \<times> sqlval) list"

datatype sqlerr =
    ConnectionError
  | UniqueViolation
  | NotNullViolation
  | InvalidTextRepresentation
  | SyntaxError
  | DivisionByZero
  | OtherError

record login_row =
  lg_username :: string
  lg_password :: string

record books_data_row =
  bd_book_id :: int
  bd_title :: string
  bd_description :: string
  bd_image_link :: string
  bd_publisher :: string
  bd_published_date :: string

record books_rating_row =
  br_book_id :: int
  br_rating :: rat

record books_movies_map_row =
  bm_book_id :: int
  bm_tconst :: string

record movies_metadata_row =
  mm_tconst :: string
  mm_primarytitle :: string
  mm_isadult :: bool
  mm_runtimeminutes :: int

record movies_ratings_row =
  mr_movie_id :: string
  mr_averagerating :: rat

text \<open>
  Modelled from the spec: the views BookStats and MovieStats are not in the repository. Each
  is a table of rows holding the global mean and standard deviation of the ratings; an
  aggregate over too few rows is NULL.
\<close>

record stats_row =
  avg_rating :: "rat option"
  stddev_rating :: "rat option"

text \<open>
  Modelled from the spec: the schema is not in the repository. The columns the statements
  below read are the ones their text names; the columns of the base tables hold values, NULL
  arises from the outer joins and the aggregates.
\<close>

record database =
  login_tbl :: "login_row list"
  books_data :: "books_data_row list"
  books_rating :: "books_rating_row list"
  books_movies_map :: "books_movies_map_row list"
  movies_metadata :: "movies_metadata_row list"
  movies_ratings :: "movies_ratings_row list"
  BookStats :: "stats_row list"
  MovieStats :: "stats_row list"

subsection \<open>The statements of routes.js\<close>

text \<open>One constructor for each statement text, with the values bound or interpolated.\<close>

datatype statement =
    INSERT_login jsval jsval
  | SELECT_login jsval
  | SELECT_search_books string string string "string option" "string option"
  | SELECT_moviesDetails string
  | SELECT_moviesDetailsWithId string
  | SELECT_searchMovies string string string string string string string
  | SELECT_book_details string
  | SELECT_book_reviews string string string
  | SELECT_top_authors
  | SELECT_book_adaptations_for_movie string
  | SELECT_movie_adaptations_for_book string
  | SELECT_topMoviesByGenre
  | SELECT_ReviewMovieStats
  | SELECT_books_to_movies
  | SELECT_outliers

subsection \<open>The text of a statement\<close>

abbreviation nl :: string where
  "nl \<equiv> [CHR 0x0A]"

abbreviation sq :: string where
  "sq \<equiv> [CHR 0x27]"

text \<open>\<^verbatim>\<open>${x}\<close> for a query parameter that may be undefined.\<close>

fun template_value :: "string option \<Rightarrow> string" where
  "template_value None = ''undefined''"
| "template_value (Some s) = s"

text \<open>
  The text handed to \<^verbatim>\<open>connection.query\<close>, line by line as routes.js writes the
  template, with the parameters spliced where the template has \<^verbatim>\<open>${...}\<close>. The two
  statements on login bind their parameters instead (\<^verbatim>\<open>$1\<close>, \<^verbatim>\<open>$2\<close>).
\<close>

definition text_signup :: "string" where
  "text_signup =
     ''INSERT INTO login (username, password)'' @ nl
     @ ''                   VALUES ($1, $2);''"

definition text_login :: "string" where
  "text_login =
     ''SELECT *'' @ nl
     @ ''                      FROM login'' @ nl
     @ ''                      WHERE username = $1''"

definition text_search_books :: "string \<Rightarrow> string \<Rightarrow> string \<Rightarrow> string option \<Rightarrow> string option \<Rightarrow> string" where
  "text_search_books bookTitle authorName genreName yearLow yearHigh =
     nl
     @ ''        SELECT DISTINCT bd.book_id,'' @ nl
     @ ''                        bd.title,'' @ nl
     @ ''                        STRING_AGG(DISTINCT ba.author_name, ', ') AS author_name,'' @ nl
     @ ''                        bd.description,'' @ nl
     @ ''                        bd.image_link,'' @ nl
     @ ''                        bd.publisher,'' @ nl
     @ ''                        bd.published_date                         AS year_published,'' @ nl
     @ ''                        STRING_AGG(DISTINCT bg.genre_name, ', ')  AS genre_name'' @ nl
     @ ''        FROM books_data bd'' @ nl
     @ ''                 JOIN books_authors ba ON bd.book_id = ba.book_id'' @ nl
     @ ''                 JOIN books_genres bg ON bd.book_id = bg.book_id'' @ nl
     @ ''        WHERE lower(bd.title) LIKE lower('%'' @ bookTitle @ ''%')'' @ nl
     @ ''          AND lower(ba.author_name) LIKE lower('%'' @ authorName @ ''%')'' @ nl
     @ ''          AND lower(bg.genre_name) LIKE lower('%'' @ genreName @ ''%')'' @ nl
     @ ''          AND EXTRACT(YEAR FROM bd.published_date) >= '' @ (template_value yearLow) @ nl
     @ ''          AND EXTRACT(YEAR FROM bd.published_date) <= '' @ (template_value yearHigh) @ nl
     @ ''        GROUP BY bd.book_id, bd.title, bd.description, bd.image_link, bd.publisher, bd.published_date'' @ nl
     @ ''        ORDER BY bd.title;'' @ nl
     @ ''    ''"

definition text_moviesDetails :: "string \<Rightarrow> string" where
  "text_moviesDetails movieTitle =
     nl
     @ ''        SELECT d.tconst,'' @ nl
     @ ''               d.primaryTitle,'' @ nl
     @ ''               d.originalTitle,'' @ nl
     @ ''               d.isAdult,'' @ nl
     @ ''               d.runtimeMinutes,'' @ nl
     @ ''               STRING_AGG(g.genre, ', ') AS genres,'' @ nl
     @ ''               r.averageRating,'' @ nl
     @ ''               r.numVotes'' @ nl
     @ ''        FROM movies_metadata d'' @ nl
     @ ''                 LEFT JOIN'' @ nl
     @ ''             movies_ratings r'' @ nl
     @ ''             ON'' @ nl
     @ ''                 d.tconst = r.movie_id'' @ nl
     @ ''                 LEFT JOIN'' @ nl
     @ ''             movies_genres g'' @ nl
     @ ''             ON'' @ nl
     @ ''                 d.tconst = g.movie_id'' @ nl
     @ ''        WHERE (lower(d.primaryTitle) LIKE lower('%'' @ movieTitle @ ''%')'' @ nl
     @ ''            OR lower(d.originalTitle) LIKE lower('%'' @ movieTitle @ ''%'))'' @ nl
     @ ''          AND d.runtimeMinutes > 0'' @ nl
     @ ''        GROUP BY d.tconst, d.primaryTitle, d.originalTitle, d.isAdult, d.runtimeMinutes, r.averageRating, r.numVotes;'' @ nl
     @ ''    ''"

definition text_moviesDetailsWithId :: "string \<Rightarrow> string" where
  "text_moviesDetailsWithId tconst =
     nl
     @ ''        SELECT d.tconst,'' @ nl
     @ ''               d.primaryTitle,'' @ nl
     @ ''               d.originalTitle,'' @ nl
     @ ''               d.isAdult,'' @ nl
     @ ''               d.runtimeMinutes,'' @ nl
     @ ''               STRING_AGG(g.genre, ', ') AS genres,'' @ nl
     @ ''               r.averageRating,'' @ nl
     @ ''               r.numVotes'' @ nl
     @ ''        FROM movies_metadata d'' @ nl
     @ ''                 LEFT JOIN'' @ nl
     @ ''             movies_ratings r'' @ nl
     @ ''             ON'' @ nl
     @ ''                 d.tconst = r.movie_id'' @ nl
     @ ''                 LEFT JOIN'' @ nl
     @ ''             movies_genres g'' @ nl
     @ ''             ON'' @ nl
     @ ''                 d.tconst = g.movie_id'' @ nl
     @ ''        WHERE d.tconst = '' @ sq @ tconst @ sq @ nl
     @ ''          AND d.runtimeMinutes > 0'' @ nl
     @ ''        GROUP BY d.tconst, d.primaryTitle, d.originalTitle, d.isAdult, d.runtimeMinutes, r.averageRating, r.numVotes;'' @ nl
     @ ''    ''"

definition text_searchMovies :: "string \<Rightarrow> string \<Rightarrow> string \<Rightarrow> string \<Rightarrow> string \<Rightarrow> string \<Rightarrow> string \<Rightarrow> string" where
  "text_searchMovies movieTitle isAdult genre minRunTimeMinutes maxRunTimeMinutes minRating maxRating =
     nl
     @ ''        SELECT d.tconst,'' @ nl
     @ ''               d.primaryTitle,'' @ nl
     @ ''               d.originalTitle,'' @ nl
     @ ''               d.isAdult,'' @ nl
     @ ''               d.runtimeMinutes,'' @ nl
     @ ''               STRING_AGG(g.genre, ', ') AS genres,'' @ nl
     @ ''               r.averageRating,'' @ nl
     @ ''               r.numVotes'' @ nl
     @ ''        FROM movies_metadata d'' @ nl
     @ ''                 LEFT JOIN'' @ nl
     @ ''             movies_ratings r'' @ nl
     @ ''             ON'' @ nl
     @ ''                 d.tconst = r.movie_id'' @ nl
     @ ''                 LEFT JOIN'' @ nl
     @ ''             movies_genres g'' @ nl
     @ ''             ON'' @ nl
     @ ''                 d.tconst = g.movie_id'' @ nl
     @ ''        WHERE (lower(d.primaryTitle) LIKE lower('%'' @ movieTitle @ ''%')'' @ nl
     @ ''            OR d.originalTitle LIKE lower('%'' @ movieTitle @ ''%'))'' @ nl
     @ ''          AND d.runtimeMinutes >= '' @ minRunTimeMinutes @ nl
     @ ''          AND d.runtimeMinutes <= '' @ maxRunTimeMinutes @ nl
     @ ''          AND lower(g.genre) LIKE lower('%'' @ genre @ ''%')'' @ nl
     @ ''          AND d.isAdult = '' @ isAdult @ nl
     @ ''          AND r.averageRating >= '' @ minRating @ nl
     @ ''          AND r.averageRating <= '' @ maxRating @ nl
     @ ''        GROUP BY d.tconst, d.primaryTitle, d.originalTitle, d.isAdult, d.runtimeMinutes, r.averageRating, r.numVotes;'' @ nl
     @ ''    ''"

definition text_get_book_details :: "string \<Rightarrow> string" where
  "text_get_book_details book_id =
     nl
     @ ''        SELECT bd.book_id,'' @ nl
     @ ''               bd.title                                                 as book_title,'' @ nl
     @ ''               bd.description                                           as book_description,'' @ nl
     @ ''               bd.image_link                                            as book_image_link,'' @ nl
     @ ''               bd.publisher                                             as book_publisher_name,'' @ nl
     @ ''               bd.published_date                                        as book_published_date,'' @ nl
     @ ''               STRING_AGG(ba.author_name, ', ' ORDER BY ba.author_name) AS authors'' @ nl
     @ ''        FROM books_data bd'' @ nl
     @ ''                 JOIN books_authors ba ON bd.book_id = ba.book_id'' @ nl
     @ ''        WHERE bd.book_id = '' @ sq @ book_id @ sq @ nl
     @ ''        GROUP BY bd.book_id, bd.title, bd.description, bd.image_link, bd.publisher, bd.published_date'' @ nl
     @ ''    ''"

definition text_get_book_reviews :: "string \<Rightarrow> string \<Rightarrow> string \<Rightarrow> string" where
  "text_get_book_reviews book_id minRating maxRating =
     nl
     @ ''        SELECT b.title                 as book_title,'' @ nl
     @ ''               r.review                as book_review,'' @ nl
     @ ''               r.rating                as book_rating,'' @ nl
     @ ''               r.reviewer_profile_name as reviewer_profile_name,'' @ nl
     @ ''               r.total_votes           as book_review_votes'' @ nl
     @ ''        FROM books_rating r'' @ nl
     @ ''                 INNER JOIN books_data b ON r.book_id = b.book_id'' @ nl
     @ ''        WHERE b.book_id = '' @ sq @ book_id @ sq @ nl
     @ ''          AND r.rating >= '' @ sq @ minRating @ sq @ nl
     @ ''          AND r.rating <= '' @ sq @ maxRating @ sq @ nl
     @ ''        order by r.rating DESC;'' @ nl
     @ ''    ''"

definition text_book_analytics_top_authors :: "string" where
  "text_book_analytics_top_authors =
     nl
     @ ''        SELECT ba.author_name, AVG(br.rating) AS average_rating'' @ nl
     @ ''        FROM books_authors ba'' @ nl
     @ ''                 INNER JOIN books_rating br ON (ba.book_id) = (br.book_id)'' @ nl
     @ ''        GROUP BY ba.author_name'' @ nl
     @ ''        ORDER BY average_rating DESC LIMIT 5;'' @ nl
     @ ''    ''"

definition text_get_book_adaptations_for_movie :: "string \<Rightarrow> string" where
  "text_get_book_adaptations_for_movie tconst =
     nl
     @ ''        WITH AverageBookRating AS (SELECT book_id,'' @ nl
     @ ''                                          AVG(rating) AS avg_book_rating'' @ nl
     @ ''                                   FROM books_rating'' @ nl
     @ ''                                   GROUP BY book_id)'' @ nl
     @ ''        SELECT b.book_id           AS book_id,'' @ nl
     @ ''               b.title             AS book_title,'' @ nl
     @ ''               abr.avg_book_rating AS book_rating, -- Use the average rating instead of individual ratings'' @ nl
     @ ''               m.primarytitle      AS movie_title,'' @ nl
     @ ''               mr.averagerating    AS avg_movie_rating,'' @ nl
     @ ''               m.isadult           AS is_movie_adult'' @ nl
     @ ''        FROM movies_metadata m'' @ nl
     @ ''                 JOIN'' @ nl
     @ ''             books_movies_map bm ON m.tconst = bm.tconst'' @ nl
     @ ''                 JOIN'' @ nl
     @ ''             books_data b ON b.book_id = bm.book_id'' @ nl
     @ ''                 LEFT JOIN'' @ nl
     @ ''             AverageBookRating abr ON b.book_id = abr.book_id -- Include average ratings'' @ nl
     @ ''                 LEFT JOIN'' @ nl
     @ ''             movies_ratings mr ON m.tconst = mr.movie_id'' @ nl
     @ ''        WHERE m.tconst = '' @ sq @ tconst @ sq @ nl
     @ ''        ORDER BY m.runtimeminutes DESC LIMIT 1;'' @ nl
     @ ''    ''"

definition text_get_movie_adaptations_for_book :: "string \<Rightarrow> string" where
  "text_get_movie_adaptations_for_book book_id =
     nl
     @ ''        WITH AverageBookRating AS (SELECT book_id,'' @ nl
     @ ''                                          AVG(rating) AS avg_book_rating'' @ nl
     @ ''                                   FROM books_rating'' @ nl
     @ ''                                   WHERE book_id = '' @ book_id @ nl
     @ ''                                   GROUP BY book_id)'' @ nl
     @ ''        SELECT b.title             AS book_title,'' @ nl
     @ ''               b.description       AS book_description,'' @ nl
     @ ''               b.image_link        AS book_image_link,'' @ nl
     @ ''               b.publisher         AS book_publisher_name,'' @ nl
     @ ''               b.published_date    AS book_published_date,'' @ nl
     @ ''               abr.avg_book_rating AS book_average_rating,'' @ nl
     @ ''               m.primarytitle      AS movie_title,'' @ nl
     @ ''               mr.averagerating    AS avg_movie_rating,'' @ nl
     @ ''               m.isadult           AS is_movie_adult,'' @ nl
     @ ''               m.tconst            AS movie_id'' @ nl
     @ ''        FROM books_data b'' @ nl
     @ ''                 JOIN'' @ nl
     @ ''             books_movies_map bm ON b.book_id = bm.book_id'' @ nl
     @ ''                 JOIN'' @ nl
     @ ''             movies_metadata m ON bm.tconst = m.tconst'' @ nl
     @ ''                 LEFT JOIN'' @ nl
     @ ''             AverageBookRating abr ON b.book_id = abr.book_id'' @ nl
     @ ''                 LEFT JOIN'' @ nl
     @ ''             movies_ratings mr ON m.tconst = mr.movie_id'' @ nl
     @ ''        WHERE b.book_id = '' @ book_id @ nl
     @ ''        ORDER BY m.runtimeminutes DESC LIMIT 1;'' @ nl
     @ ''    ''"

definition text_topMoviesByGenre :: "string" where
  "text_topMoviesByGenre =
     ''SELECT genre,'' @ nl
     @ ''                             primaryTitle,'' @ nl
     @ ''                             averageRating'' @ nl
     @ ''                      FROM mv_top_movies_by_genre'' @ nl
     @ ''                      ORDER BY genre, rank;'' @ nl
     @ ''    ''"

definition text_correlationReviewsMovieRatings :: "string" where
  "text_correlationReviewsMovieRatings =
     ''SELECT label,'' @ nl
     @ ''                             COUNT(*) AS record_count'' @ nl
     @ ''                      FROM ReviewMovieStats2'' @ nl
     @ ''                      GROUP BY label'' @ nl
     @ ''                      ORDER BY record_count DESC;'' @ nl
     @ ''    ''"

definition text_PositiveReviewsforBooksvsLowMovierating :: "string" where
  "text_PositiveReviewsforBooksvsLowMovierating =
     ''WITH books_to_movies AS (SELECT pb.book_id,'' @ nl
     @ ''                                                      pb.positive_review_count,'' @ nl
     @ ''                                                      pb.avg_book_rating,'' @ nl
     @ ''                                                      lm.movie_title,'' @ nl
     @ ''                                                      lm.avg_movie_rating'' @ nl
     @ ''                                               FROM mv_positive_books2 pb'' @ nl
     @ ''                                                        JOIN books_movies_map bm ON pb.book_id = bm.book_id'' @ nl
     @ ''                                                        JOIN mv_low_rated_movies lm ON bm.tconst = lm.tconst)'' @ nl
     @ ''                      SELECT btm.movie_title,'' @ nl
     @ ''                             btm.positive_review_count,'' @ nl
     @ ''                             btm.avg_movie_rating'' @ nl
     @ ''                      FROM books_to_movies btm'' @ nl
     @ ''                      WHERE btm.positive_review_count > 20'' @ nl
     @ ''                      ORDER BY btm.positive_review_count DESC, btm.avg_movie_rating ASC;''"

definition text_BookAndMovieOutliers :: "string" where
  "text_BookAndMovieOutliers =
     ''WITH BookOutliers AS (SELECT bd.title,'' @ nl
     @ ''                                                   AVG(br.rating)                                      AS book_avg_rating,'' @ nl
     @ ''                                                   (AVG(br.rating) - bs.avg_rating) / bs.stddev_rating AS z_score'' @ nl
     @ ''                                            FROM books_rating br'' @ nl
     @ ''                                                     JOIN books_data bd ON br.book_id = bd.book_id'' @ nl
     @ ''                                                     CROSS JOIN BookStats bs -- CROSS JOIN to bring avg_rating and stddev_rating into the calculation'' @ nl
     @ ''                                            GROUP BY bd.title, bs.avg_rating,'' @ nl
     @ ''                                                     bs.stddev_rating -- Include bs columns in GROUP BY'' @ nl
     @ ''                                            HAVING ABS((AVG(br.rating) - bs.avg_rating) / bs.stddev_rating) > 2),'' @ nl
     @ ''                           MovieOutliers AS (SELECT mm.primarytitle                                            AS movie_title,'' @ nl
     @ ''                                                    AVG(mr.averagerating)                                      AS movie_avg_rating,'' @ nl
     @ ''                                                    (AVG(mr.averagerating) - ms.avg_rating) / ms.stddev_rating AS z_score'' @ nl
     @ ''                                             FROM movies_ratings mr'' @ nl
     @ ''                                                      JOIN movies_metadata mm ON mr.movie_id = mm.tconst'' @ nl
     @ ''                                                      CROSS JOIN MovieStats ms -- CROSS JOIN to bring avg_rating and stddev_rating into the calculation'' @ nl
     @ ''                                             GROUP BY mm.primarytitle, ms.avg_rating,'' @ nl
     @ ''                                                      ms.stddev_rating -- Include ms columns in GROUP BY'' @ nl
     @ ''                                             HAVING ABS((AVG(mr.averagerating) - ms.avg_rating) / ms.stddev_rating) > 2)'' @ nl
     @ ''                      SELECT 'Book'          AS media_type,'' @ nl
     @ ''                             title           AS media_title,'' @ nl
     @ ''                             book_avg_rating AS avg_rating,'' @ nl
     @ ''                             z_score'' @ nl
     @ ''                      FROM BookOutliers'' @ nl
     @ ''                      UNION ALL'' @ nl
     @ ''                      SELECT 'Movie'          AS media_type,'' @ nl
     @ ''                             movie_title      AS media_title,'' @ nl
     @ ''                             movie_avg_rating AS avg_rating,'' @ nl
     @ ''                             z_score'' @ nl
     @ ''                      FROM MovieOutliers'' @ nl
     @ ''                      ORDER BY z_score DESC;''"

primrec query_text :: "statement \<Rightarrow> string" where
  "query_text (INSERT_login u p) = text_signup"
| "query_text (SELECT_login u) = text_login"
| "query_text (SELECT_search_books bookTitle authorName genreName yearLow yearHigh) = text_search_books bookTitle authorName genreName yearLow yearHigh"
| "query_text (SELECT_moviesDetails movieTitle) = text_moviesDetails movieTitle"
| "query_text (SELECT_moviesDetailsWithId tconst) = text_moviesDetailsWithId tconst"
| "query_text (SELECT_searchMovies movieTitle isAdult genre minRunTimeMinutes maxRunTimeMinutes minRating maxRating) = text_searchMovies movieTitle isAdult genre minRunTimeMinutes maxRunTimeMinutes minRating maxRating"
| "query_text (SELECT_book_details book_id) = text_get_book_details book_id"
| "query_text (SELECT_book_reviews book_id minRating maxRating) = text_get_book_reviews book_id minRating maxRating"
| "query_text (SELECT_top_authors) = text_book_analytics_top_authors"
| "query_text (SELECT_book_adaptations_for_movie tconst) = text_get_book_adaptations_for_movie tconst"
| "query_text (SELECT_movie_adaptations_for_book book_id) = text_get_movie_adaptations_for_book book_id"
| "query_text (SELECT_topMoviesByGenre) = text_topMoviesByGenre"
| "query_text (SELECT_ReviewMovieStats) = text_correlationReviewsMovieRatings"
| "query_text (SELECT_books_to_movies) = text_PositiveReviewsforBooksvsLowMovierating"
| "query_text (SELECT_outliers) = text_BookAndMovieOutliers"

text \<open>
  A parameter spliced between quotes spells a string literal when it holds no quote (and no
  NUL, which would end the text); a parameter spliced bare spells a literal when it is an
  integer (or, for the adult flag, a truth value). An undefined year is spliced as the word
  \<^verbatim>\<open>undefined\<close>, which leaves the text a single statement.
\<close>

definition plain_quoted :: "string \<Rightarrow> bool" where
  "plain_quoted s = (CHR 0x27 \<notin> set s \<and> CHR 0x00 \<notin> set s)"

definition plain_bare :: "string \<Rightarrow> bool" where
  "plain_bare s = (parse_int s \<noteq> None)"

fun plain_year :: "string option \<Rightarrow> bool" where
  "plain_year None = True"
| "plain_year (Some s) = plain_bare s"

definition plain_flag :: "string \<Rightarrow> bool" where
  "plain_flag s = (s = ''true'' \<or> s = ''false'' \<or> plain_bare s)"

text \<open>The statements whose text is the statement the template writes.\<close>

fun plain :: "statement \<Rightarrow> bool" where
  "plain (INSERT_login u p) = True"
| "plain (SELECT_login u) = True"
| "plain (SELECT_search_books bookTitle authorName genreName yearLow yearHigh) =
     (plain_quoted bookTitle \<and> plain_quoted authorName \<and> plain_quoted genreName
      \<and> plain_year yearLow \<and> plain_year yearHigh)"
| "plain (SELECT_moviesDetails movieTitle) = plain_quoted movieTitle"
| "plain (SELECT_moviesDetailsWithId tconst) = plain_quoted tconst"
| "plain (SELECT_searchMovies movieTitle isAdult genre minRunTimeMinutes maxRunTimeMinutes minRating maxRating) =
     (plain_quoted movieTitle \<and> plain_flag isAdult \<and> plain_quoted genre
      \<and> plain_bare minRunTimeMinutes \<and> plain_bare maxRunTimeMinutes
      \<and> plain_bare minRating \<and> plain_bare maxRating)"
| "plain (SELECT_book_details book_id) = plain_quoted book_id"
| "plain (SELECT_book_reviews book_id minRating maxRating) =
     (plain_quoted book_id \<and> plain_quoted minRating \<and> plain_quoted maxRating)"
| "plain SELECT_top_authors = True"
| "plain (SELECT_book_adaptations_for_movie tconst) = plain_quoted tconst"
| "plain (SELECT_movie_adaptations_for_book book_id) = plain_bare book_id"
| "plain SELECT_topMoviesByGenre = True"
| "plain SELECT_ReviewMovieStats = True"
| "plain SELECT_books_to_movies = True"
| "plain SELECT_outliers = True"

text \<open>
  The statements of a text, as the server separates them: at the semicolons that stand
  outside a string literal and outside a comment (\<^verbatim>\<open>--\<close> to the end of the line), each
  without the white space around it, the empty ones left out.
\<close>

datatype lexer_state = InCode | InLiteral | InComment

fun split_statements :: "lexer_state \<Rightarrow> string \<Rightarrow> string \<Rightarrow> string list" where
  "split_statements st cur [] = [cur]"
| "split_statements st cur (c # cs) =
     (case st of
        InCode \<Rightarrow>
          if c = CHR '';'' then cur # split_statements InCode [] cs
          else if c = CHR 0x27 then split_statements InLiteral (cur @ [c]) cs
          else if c = CHR ''-'' \<and> take 1 cs = ''-'' then split_statements InComment cur cs
          else split_statements InCode (cur @ [c]) cs
      | InLiteral \<Rightarrow>
          if c = CHR 0x27 then split_statements InCode (cur @ [c]) cs
          else split_statements InLiteral (cur @ [c]) cs
      | InComment \<Rightarrow>
          if c = CHR 0x0A then split_statements InCode (cur @ [c]) cs
          else split_statements InComment cur cs)"

definition is_space :: "char \<Rightarrow> bool" where
  "is_space c = (c = CHR '' '' \<or> c = CHR 0x0A \<or> c = CHR 0x09 \<or> c = CHR 0x0D)"

definition trim :: "string \<Rightarrow> string" where
  "trim s = rev (dropWhile is_space (rev (dropWhile is_space s)))"

definition sql_statements :: "string \<Rightarrow> string list" where
  "sql_statements t = filter (\<lambda>s. s \<noteq> []) (map trim (split_statements InCode [] t))"

text \<open>
  How node-postgres binds a parameter (\<^verbatim>\<open>$1\<close>): undefined and null become NULL, every
  other value its text. A number is an integer here and its text the decimal digits, which
  is what \<^verbatim>\<open>toString\<close> gives for an integer below \<open>10\<^sup>2\<^sup>1\<close>.
\<close>

fun prepareValue :: "jsval \<Rightarrow> sqlval" where
  "prepareValue JSUndefined = SNull"
| "prepareValue JSNull = SNull"
| "prepareValue (JSString s) = SText s"
| "prepareValue (JSNumber n) = SText (dec n)"
| "prepareValue (JSBool b) = SText (if b then ''true'' else ''false'')"

subsection \<open>The login table\<close>

text \<open>
  Modelled from the spec: the constraints of the login table are not in the repository. A
  duplicate username fails on a unique constraint; both columns hold a value, so a NULL for
  either is refused.
\<close>

definition insert_login :: "login_row list \<Rightarrow> sqlval \<Rightarrow> sqlval \<Rightarrow> sqlerr + login_row list" where
  "insert_login t u p =
     (case (u, p) of
        (SText name, SText pw) \<Rightarrow>
          if name \<in> set (map lg_username t) then Inl UniqueViolation
          else Inr (t @ [\<lparr>lg_username = name, lg_password = pw\<rparr>])
      | _ \<Rightarrow> Inl NotNullViolation)"

definition login_result_row :: "login_row \<Rightarrow> row" where
  "login_result_row r = [(''username'', SText (lg_username r)), (''password'', SText (lg_password r))]"

text \<open>\<^verbatim>\<open>SELECT * FROM login WHERE username = $1\<close>: a comparison with NULL selects nothing.\<close>

definition select_login :: "login_row list \<Rightarrow> sqlval \<Rightarrow> row list" where
  "select_login t u =
     (case u of
        SText name \<Rightarrow> map login_result_row (filter (\<lambda>r. lg_username r = name) t)
      | _ \<Rightarrow> [])"

text \<open>\<^verbatim>\<open>row.password\<close> for a row of login: the text of the column, undefined without it.\<close>

definition password_of :: "row \<Rightarrow> jsval" where
  "password_of r =
     (case map_of r ''password'' of
        Some (SText s) \<Rightarrow> JSString s
      | Some SNull \<Rightarrow> JSNull
      | _ \<Rightarrow> JSUndefined)"

subsection \<open>Joins, aggregates, ordering\<close>

definition inner_join :: "'a list \<Rightarrow> 'b list \<Rightarrow> ('a \<Rightarrow> 'b \<Rightarrow> bool) \<Rightarrow> ('a \<times> 'b) list" where
  "inner_join xs ys on = concat (map (\<lambda>x. map (Pair x) (filter (on x) ys)) xs)"

text \<open>A row of the left side without a partner is kept once, with NULL for the right side.\<close>

definition left_join :: "'a list \<Rightarrow> 'b list \<Rightarrow> ('a \<Rightarrow> 'b \<Rightarrow> bool) \<Rightarrow> ('a \<times> 'b option) list" where
  "left_join xs ys on =
     concat (map (\<lambda>x. case filter (on x) ys of
                          [] \<Rightarrow> [(x, None)]
                        | m # ms \<Rightarrow> map (\<lambda>y. (x, Some y)) (m # ms)) xs)"

text \<open>\<^verbatim>\<open>AVG\<close> over the rows of a group; a group has at least one row.\<close>

definition AVG :: "rat list \<Rightarrow> rat" where
  "AVG xs = sum_list xs / of_nat (length xs)"

text \<open>
  \<^verbatim>\<open>ORDER BY k DESC\<close>, as a stable sort: rows with equal keys keep the order they
  had (the server may return them in any order).
\<close>

definition order_by_desc :: "('a \<Rightarrow> 'k::linordered_ab_group_add) \<Rightarrow> 'a list \<Rightarrow> 'a list" where
  "order_by_desc k xs = sort_key (\<lambda>x. - k x) xs"

definition limit :: "nat \<Rightarrow> 'a list \<Rightarrow> 'a list" where
  "limit n xs = take n xs"

fun nullable_num :: "rat option \<Rightarrow> sqlval" where
  "nullable_num None = SNull"
| "nullable_num (Some q) = SNum q"

subsection \<open>The adaptation statements\<close>

text \<open>
  \<^verbatim>\<open>SELECT book_id, AVG(rating) AS avg_book_rating FROM books_rating GROUP BY book_id\<close>
\<close>

definition AverageBookRating :: "books_rating_row list \<Rightarrow> (int \<times> rat) list" where
  "AverageBookRating rs =
     map (\<lambda>k. (k, AVG (map br_rating (filter (\<lambda>r. br_book_id r = k) rs))))
         (remdups (map br_book_id rs))"

type_synonym adaptation_join =
  "(((movies_metadata_row \<times> books_movies_map_row) \<times> books_data_row) \<times> (int \<times> rat) option)
     \<times> movies_ratings_row option"

definition aj_movie :: "adaptation_join \<Rightarrow> movies_metadata_row" where
  "aj_movie j = fst (fst (fst (fst j)))"

definition aj_map :: "adaptation_join \<Rightarrow> books_movies_map_row" where
  "aj_map j = snd (fst (fst (fst j)))"

definition aj_book :: "adaptation_join \<Rightarrow> books_data_row" where
  "aj_book j = snd (fst (fst j))"

definition aj_abr :: "adaptation_join \<Rightarrow> (int \<times> rat) option" where
  "aj_abr j = snd (fst j)"

definition aj_mr :: "adaptation_join \<Rightarrow> movies_ratings_row option" where
  "aj_mr j = snd j"

text \<open>
  The FROM clause of get_book_adaptations_for_movie:
  \<^verbatim>\<open>movies_metadata m JOIN books_movies_map bm ON m.tconst = bm.tconst
  JOIN books_data b ON b.book_id = bm.book_id
  LEFT JOIN AverageBookRating abr ON b.book_id = abr.book_id
  LEFT JOIN movies_ratings mr ON m.tconst = mr.movie_id\<close>
\<close>

definition book_adaptations_from :: "database \<Rightarrow> adaptation_join list" where
  "book_adaptations_from db =
     left_join
       (left_join
          (inner_join
             (inner_join (movies_metadata db) (books_movies_map db)
                (\<lambda>m bm. mm_tconst m = bm_tconst bm))
             (books_data db) (\<lambda>(m, bm) b. bd_book_id b = bm_book_id bm))
          (AverageBookRating (books_rating db)) (\<lambda>((m, bm), b) abr. bd_book_id b = fst abr))
       (movies_ratings db) (\<lambda>(((m, bm), b), abr) mr. mm_tconst m = mr_movie_id mr)"

definition book_adaptation_row :: "adaptation_join \<Rightarrow> row" where
  "book_adaptation_row j =
     [(''book_id'', SInt (bd_book_id (aj_book j))),
      (''book_title'', SText (bd_title (aj_book j))),
      (''book_rating'', nullable_num (map_option snd (aj_abr j))),
      (''movie_title'', SText (mm_primarytitle (aj_movie j))),
      (''avg_movie_rating'', nullable_num (map_option mr_averagerating (aj_mr j))),
      (''is_movie_adult'', SBool (mm_isadult (aj_movie j)))]"

text \<open>
  \<^verbatim>\<open>... WHERE m.tconst = '${tconst}' ORDER BY m.runtimeminutes DESC LIMIT 1\<close>, for a
  tconst that spells a string literal.
\<close>

definition select_book_adaptations_for_movie :: "database \<Rightarrow> string \<Rightarrow> row list" where
  "select_book_adaptations_for_movie db tconst =
     map book_adaptation_row
       (limit 1
          (order_by_desc (\<lambda>j. mm_runtimeminutes (aj_movie j))
             (filter (\<lambda>j. mm_tconst (aj_movie j) = tconst) (book_adaptations_from db))))"

text \<open>
  The FROM clause of get_movie_adaptations_for_book, brought to the same shape of joined row:
  \<^verbatim>\<open>books_data b JOIN books_movies_map bm ON b.book_id = bm.book_id
  JOIN movies_metadata m ON bm.tconst = m.tconst
  LEFT JOIN AverageBookRating abr ON b.book_id = abr.book_id
  LEFT JOIN movies_ratings mr ON m.tconst = mr.movie_id\<close>
  where AverageBookRating here reads only the reviews with \<^verbatim>\<open>book_id = ${book_id}\<close>.
\<close>

definition movie_adaptations_from :: "database \<Rightarrow> int \<Rightarrow> adaptation_join list" where
  "movie_adaptations_from db n =
     left_join
       (left_join
          (map (\<lambda>((b, bm), m). ((m, bm), b))
             (inner_join
                (inner_join (books_data db) (books_movies_map db)
                   (\<lambda>b bm. bd_book_id b = bm_book_id bm))
                (movies_metadata db) (\<lambda>(b, bm) m. bm_tconst bm = mm_tconst m)))
          (AverageBookRating (filter (\<lambda>r. br_book_id r = n) (books_rating db)))
          (\<lambda>((m, bm), b) abr. bd_book_id b = fst abr))
       (movies_ratings db) (\<lambda>(((m, bm), b), abr) mr. mm_tconst m = mr_movie_id mr)"

definition movie_adaptation_row :: "adaptation_join \<Rightarrow> row" where
  "movie_adaptation_row j =
     [(''book_title'', SText (bd_title (aj_book j))),
      (''book_description'', SText (bd_description (aj_book j))),
      (''book_image_link'', SText (bd_image_link (aj_book j))),
      (''book_publisher_name'', SText (bd_publisher (aj_book j))),
      (''book_published_date'', SText (bd_published_date (aj_book j))),
      (''book_average_rating'', nullable_num (map_option snd (aj_abr j))),
      (''movie_title'', SText (mm_primarytitle (aj_movie j))),
      (''avg_movie_rating'', nullable_num (map_option mr_averagerating (aj_mr j))),
      (''is_movie_adult'', SBool (mm_isadult (aj_movie j))),
      (''movie_id'', SText (mm_tconst (aj_movie j)))]"

text \<open>
  \<^verbatim>\<open>... WHERE b.book_id = ${book_id} ORDER BY m.runtimeminutes DESC LIMIT 1\<close>, for a
  book_id that spells the integer \<open>n\<close>.
\<close>

definition select_movie_adaptations_for_book :: "database \<Rightarrow> int \<Rightarrow> row list" where
  "select_movie_adaptations_for_book db n =
     map movie_adaptation_row
       (limit 1
          (order_by_desc (\<lambda>j. mm_runtimeminutes (aj_movie j))
             (filter (\<lambda>j. bd_book_id (aj_book j) = n) (movie_adaptations_from db n))))"

subsection \<open>The outlier statement\<close>

record outlier =
  media_type :: string
  media_title :: string
  o_avg_rating :: rat
  z_score :: rat

text \<open>
  \<^verbatim>\<open>(AVG(rating) - s.avg_rating) / s.stddev_rating\<close>: NULL when either statistic is
  NULL, an error when the standard deviation is zero.
\<close>

definition z_expr :: "rat \<Rightarrow> stats_row \<Rightarrow> sqlerr + rat option" where
  "z_expr a s =
     (case (avg_rating s, stddev_rating s) of
        (Some m, Some d) \<Rightarrow> if d = 0 then Inl DivisionByZero else Inr (Some ((a - m) / d))
      | _ \<Rightarrow> Inr None)"

text \<open>
  One CTE of the statement, over the rows of its FROM clause (title, rating, statistics):
  \<^verbatim>\<open>GROUP BY title, s.avg_rating, s.stddev_rating HAVING ABS(z) > 2\<close>. A group whose
  z-score is NULL does not pass HAVING; an error in any group fails the statement.
\<close>

fun having_outlier :: "string \<Rightarrow> (string \<times> rat \<times> stats_row) list \<Rightarrow> (string \<times> stats_row) list
    \<Rightarrow> sqlerr + outlier list" where
  "having_outlier label rows [] = Inr []"
| "having_outlier label rows ((t, s) # gs) =
     (let a = AVG (map (\<lambda>(t', r, s'). r) (filter (\<lambda>(t', r, s'). t' = t \<and> s' = s) rows)) in
      case z_expr a s of
        Inl e \<Rightarrow> Inl e
      | Inr z \<Rightarrow>
          (case having_outlier label rows gs of
             Inl e \<Rightarrow> Inl e
           | Inr os \<Rightarrow>
               (case z of
                  None \<Rightarrow> Inr os
                | Some v \<Rightarrow>
                    if \<bar>v\<bar> > 2
                    then Inr (\<lparr>media_type = label, media_title = t, o_avg_rating = a, z_score = v\<rparr> # os)
                    else Inr os)))"

definition outliers_cte :: "string \<Rightarrow> (string \<times> rat \<times> stats_row) list \<Rightarrow> sqlerr + outlier list" where
  "outliers_cte label rows = having_outlier label rows (remdups (map (\<lambda>(t, r, s). (t, s)) rows))"

text \<open>
  \<^verbatim>\<open>books_rating br JOIN books_data bd ON br.book_id = bd.book_id CROSS JOIN BookStats bs\<close>
\<close>

definition BookOutliers_from :: "database \<Rightarrow> (string \<times> rat \<times> stats_row) list" where
  "BookOutliers_from db =
     map (\<lambda>((br, bd), bs). (bd_title bd, br_rating br, bs))
       (inner_join
          (inner_join (books_rating db) (books_data db) (\<lambda>br bd. br_book_id br = bd_book_id bd))
          (BookStats db) (\<lambda>x bs. True))"

text \<open>
  \<^verbatim>\<open>movies_ratings mr JOIN movies_metadata mm ON mr.movie_id = mm.tconst CROSS JOIN MovieStats ms\<close>
\<close>

definition MovieOutliers_from :: "database \<Rightarrow> (string \<times> rat \<times> stats_row) list" where
  "MovieOutliers_from db =
     map (\<lambda>((mr, mm), ms). (mm_primarytitle mm, mr_averagerating mr, ms))
       (inner_join
          (inner_join (movies_ratings db) (movies_metadata db) (\<lambda>mr mm. mr_movie_id mr = mm_tconst mm))
          (MovieStats db) (\<lambda>x ms. True))"

definition outlier_row :: "outlier \<Rightarrow> row" where
  "outlier_row x =
     [(''media_type'', SText (media_type x)),
      (''media_title'', SText (media_title x)),
      (''avg_rating'', SNum (o_avg_rating x)),
      (''z_score'', SNum (z_score x))]"

text \<open>
  \<^verbatim>\<open>SELECT 'Book' AS media_type, ... FROM BookOutliers UNION ALL
  SELECT 'Movie' AS media_type, ... FROM MovieOutliers ORDER BY z_score DESC\<close>
\<close>

definition outliers_union :: "database \<Rightarrow> sqlerr + outlier list" where
  "outliers_union db =
     (case outliers_cte ''Book'' (BookOutliers_from db) of
        Inl e \<Rightarrow> Inl e
      | Inr bs \<Rightarrow>
          (case outliers_cte ''Movie'' (MovieOutliers_from db) of
             Inl e \<Rightarrow> Inl e
           | Inr ms \<Rightarrow> Inr (order_by_desc z_score (bs @ ms))))"

definition select_outliers :: "database \<Rightarrow> sqlerr + row list" where
  "select_outliers db = map_sum id (map outlier_row) (outliers_union db)"

subsection \<open>The connection\<close>

text \<open>
  \<open>fault\<close> is a failure of the connection itself; \<open>answers\<close> gives the server's result
  for the statements over the search tables and the analytic views, which are read as they
  are delivered; \<open>server\<close> is what the server does with a text that is not the statement
  its template writes: the result it reports and the tables it leaves; \<open>issued\<close> records
  every statement sent. A result is an error or the rows the callback reads as
  \<^verbatim>\<open>data.rows\<close>. For a text of several statements node-postgres hands over one
  result per statement; what a handler answers from that list is not modelled, only the
  tables such a text leaves.
\<close>

record conn =
  tables :: database
  fault :: "sqlerr option"
  answers :: "statement \<Rightarrow> sqlerr + row list"
  server :: "string \<Rightarrow> database \<Rightarrow> (sqlerr + row list) \<times> database"
  issued :: "statement list"

definition run_statement :: "conn \<Rightarrow> statement \<Rightarrow> (sqlerr + row list) \<times> database" where
  "run_statement c q =
     (if \<not> plain q then server c (query_text q) (tables c)
      else case q of
        INSERT_login u p \<Rightarrow>
          (case insert_login (login_tbl (tables c)) (prepareValue u) (prepareValue p) of
             Inl e \<Rightarrow> (Inl e, tables c)
           | Inr t \<Rightarrow> (Inr [], (tables c)\<lparr>login_tbl := t\<rparr>))
      | SELECT_login u \<Rightarrow> (Inr (select_login (login_tbl (tables c)) (prepareValue u)), tables c)
      | SELECT_book_adaptations_for_movie tconst \<Rightarrow>
          (Inr (select_book_adaptations_for_movie (tables c) tconst), tables c)
      | SELECT_movie_adaptations_for_book book_id \<Rightarrow>
          (case parse_int book_id of
             Some n \<Rightarrow> (Inr (select_movie_adaptations_for_book (tables c) n), tables c)
           | None \<Rightarrow> server c (query_text q) (tables c))
      | SELECT_outliers \<Rightarrow> (select_outliers (tables c), tables c)
      | _ \<Rightarrow> (answers c q, tables c))"

text \<open>\<^verbatim>\<open>connection.query(text, callback)\<close>: the pair handed to the callback, and the connection afterwards.\<close>

definition connection_query :: "statement \<Rightarrow> conn \<Rightarrow> (sqlerr + row list) \<times> conn" where
  "connection_query q c =
     (case fault c of
        Some e \<Rightarrow> (Inl e, c\<lparr>issued := issued c @ [q]\<rparr>)
      | None \<Rightarrow>
          (let (r, db) = run_statement c q
           in (r, c\<lparr>tables := db, issued := issued c @ [q]\<rparr>)))"

subsection \<open>Responses\<close>

datatype json = JArray "row list" | JObject "(string \<times> string) list" | JString string

record response =
  status :: nat
  body :: json

definition respond :: "nat \<Rightarrow> json \<Rightarrow> response" where
  "respond code b = \<lparr>status = code, body = b\<rparr>"

subsection \<open>The handlers\<close>

definition signup :: "jsval \<Rightarrow> jsval \<Rightarrow> conn \<Rightarrow> response \<times> conn" where
  "signup username pw c =
     (case connection_query (INSERT_login username pw) c of
        (Inl err, c') \<Rightarrow> (respond 500 (JObject [(''error'', ''User already exists or database error!'')]), c')
      | (Inr rows, c') \<Rightarrow> (respond 201 (JObject [(''message'', ''User created successfully'')]), c'))"

definition login :: "jsval \<Rightarrow> jsval \<Rightarrow> conn \<Rightarrow> response \<times> conn" where
  "login username password c =
     (case connection_query (SELECT_login username) c of
        (Inl err, c') \<Rightarrow> (respond 500 (JObject [(''error'', ''Database error'')]), c')
      | (Inr rows, c') \<Rightarrow>
          (case rows of
             [] \<Rightarrow> (respond 401 (JObject [(''message'', ''Incorrect username/password! Try again.'')]), c')
           | r # _ \<Rightarrow>
               (let storedPassword = password_of r in
                if password = storedPassword
                then (respond 200 (JObject [(''message'', ''Login successful'')]), c')
                else (respond 401 (JObject [(''message'', ''Incorrect username/password! Try again.'')]), c'))))"

text \<open>The callback shared by the handlers that answer 500 on an error and the rows otherwise.\<close>

definition rows_or_500 :: "(sqlerr + row list) \<times> conn \<Rightarrow> response \<times> conn" where
  "rows_or_500 rc =
     (case rc of
        (Inl err, c') \<Rightarrow> (respond 500 (JObject [(''error'', ''Internal Server Error'')]), c')
      | (Inr rows, c') \<Rightarrow> (respond 200 (JArray rows), c'))"

definition search_books ::
  "string option \<Rightarrow> string option \<Rightarrow> string option \<Rightarrow> string option \<Rightarrow> string option
     \<Rightarrow> conn \<Rightarrow> response \<times> conn" where
  "search_books title name genre yearLow yearHigh c =
     (let bookTitle = nullish title [];
          authorName = nullish name [];
          genreName = nullish genre []
      in if js_lt_param yearHigh yearLow
         then (respond 404 (JObject [(''error'', ''Invalid year range'')]), c)
         else rows_or_500
                (connection_query (SELECT_search_books bookTitle authorName genreName yearLow yearHigh) c))"

definition moviesDetails :: "string option \<Rightarrow> conn \<Rightarrow> response \<times> conn" where
  "moviesDetails movie_title c =
     rows_or_500 (connection_query (SELECT_moviesDetails (nullish movie_title [])) c)"

text \<open>
  With an empty tconst the handler answers 404 and goes on to send the statement; the
  response the client gets is the 404 sent first.
\<close>

definition moviesDetailsWithId :: "string \<Rightarrow> conn \<Rightarrow> response \<times> conn" where
  "moviesDetailsWithId tconst c =
     (let rc = rows_or_500 (connection_query (SELECT_moviesDetailsWithId tconst) c)
      in if length tconst = 0
         then (respond 404 (JObject [(''error'', ''Internal Server Error'')]), snd rc)
         else rc)"

definition searchMovies ::
  "string option \<Rightarrow> string option \<Rightarrow> string option \<Rightarrow> string option \<Rightarrow> string option
     \<Rightarrow> string option \<Rightarrow> string option \<Rightarrow> conn \<Rightarrow> response \<times> conn" where
  "searchMovies movieTitle isAdult genre minRunTimeMinutes maxRunTimeMinutes minRating maxRating c =
     rows_or_500
       (connection_query
          (SELECT_searchMovies (nullish movieTitle []) (nullish isAdult ''false'') (nullish genre [])
             (nullish minRunTimeMinutes ''1'') (nullish maxRunTimeMinutes ''60000'')
             (nullish minRating ''0'') (nullish maxRating ''10'')) c)"

text \<open>
  The callback tests \<^verbatim>\<open>data.length === 0\<close>; \<open>data\<close> is the result object, which has
  no \<open>length\<close>, so the test compares undefined with 0.
\<close>

definition data_length :: "row list \<Rightarrow> nat option" where
  "data_length rows = None"

definition get_book_details :: "string \<Rightarrow> conn \<Rightarrow> response \<times> conn" where
  "get_book_details book_id c =
     (if js_lt_number book_id 0
      then (respond 404 (JObject [(''message'', ''No books found'')]), c)
      else (case connection_query (SELECT_book_details book_id) c of
              (Inl err, c') \<Rightarrow> (respond 500 (JObject [(''error'', ''Internal Server Error'')]), c')
            | (Inr rows, c') \<Rightarrow>
                if data_length rows = Some 0
                then (respond 404 (JObject [(''message'', ''No books found'')]), c')
                else (respond 200 (JArray rows), c')))"

definition get_book_reviews ::
  "string option \<Rightarrow> string option \<Rightarrow> string option \<Rightarrow> conn \<Rightarrow> response \<times> conn" where
  "get_book_reviews book_id_param minrating maxrating c =
     (let book_id = nullish book_id_param [];
          minRating = nullish minrating ''0'';
          maxRating = nullish maxrating ''5''
      in if js_lt_number book_id 0
         then (respond 404 (JString ''Internal Server Error''), c)
         else (case connection_query (SELECT_book_reviews book_id minRating maxRating) c of
                 (Inl err, c') \<Rightarrow> (respond 500 (JString ''Internal Server Error''), c')
               | (Inr rows, c') \<Rightarrow>
                   if data_length rows = Some 0
                   then (respond 404 (JString ''No reviews found for the specified book title''), c')
                   else if js_lt_number book_id 0
                   then (respond 404 (JString ''No reviews found for the specified book title''), c')
                   else (respond 200 (JArray rows), c')))"

definition book_analytics_top_authors :: "conn \<Rightarrow> response \<times> conn" where
  "book_analytics_top_authors c = rows_or_500 (connection_query SELECT_top_authors c)"

definition get_book_adaptations_for_movie :: "string \<Rightarrow> conn \<Rightarrow> response \<times> conn" where
  "get_book_adaptations_for_movie tconst c =
     (if length tconst = 0
      then (respond 500 (JObject [(''error'', ''Internal Server Error'')]), c)
      else rows_or_500 (connection_query (SELECT_book_adaptations_for_movie tconst) c))"

definition get_movie_adaptations_for_book :: "string \<Rightarrow> conn \<Rightarrow> response \<times> conn" where
  "get_movie_adaptations_for_book book_id c =
     (if js_lt_number book_id (- 1)
      then (respond 500 (JObject [(''error'', ''Internal Server Error'')]), c)
      else rows_or_500 (connection_query (SELECT_movie_adaptations_for_book book_id) c))"

definition topMoviesByGenre :: "conn \<Rightarrow> response \<times> conn" where
  "topMoviesByGenre c = rows_or_500 (connection_query SELECT_topMoviesByGenre c)"

definition correlationReviewsMovieRatings :: "string option \<Rightarrow> conn \<Rightarrow> response \<times> conn" where
  "correlationReviewsMovieRatings invalid c =
     (if truthy invalid
      then (respond 400 (JObject [(''error'', ''Invalid IMDb ID'')]), c)
      else rows_or_500 (connection_query SELECT_ReviewMovieStats c))"

definition PositiveReviewsforBooksvsLowMovierating :: "string option \<Rightarrow> conn \<Rightarrow> response \<times> conn" where
  "PositiveReviewsforBooksvsLowMovierating invalid c =
     (if truthy invalid
      then (respond 500 (JObject [(''error'', ''Internal Server Error'')]), c)
      else (case connection_query SELECT_books_to_movies c of
              (Inl err, c') \<Rightarrow> (respond 500 (JString ''Internal Server Error''), c')
            | (Inr rows, c') \<Rightarrow> (respond 200 (JArray rows), c')))"

definition BookAndMovieOutliers :: "conn \<Rightarrow> response \<times> conn" where
  "BookAndMovieOutliers c = rows_or_500 (connection_query SELECT_outliers c)"

subsection \<open>The routes of server.js\<close>

datatype request =
    POST_signup jsval jsval
  | POST_login jsval jsval
  | GET_book_details string
  | GET_books_reviews "string option" "string option" "string option"
  | GET_adaptations_books string
  | GET_adaptations_movies string
  | GET_movies_details "string option"
  | GET_movies_details_id string
  | GET_search_movies "string option" "string option" "string option" "string option"
      "string option" "string option" "string option"
  | GET_books_search "string option" "string option" "string option" "string option" "string option"
  | GET_topMoviesByGenre
  | GET_topAuthors
  | GET_reviews_movie_ratings "string option"
  | GET_PositiveReviews "string option"
  | GET_BookAndMovieOutliers

fun app :: "request \<Rightarrow> conn \<Rightarrow> response \<times> conn" where
  "app (POST_signup username pw) = signup username pw"
| "app (POST_login username password) = login username password"
| "app (GET_book_details book_id) = get_book_details book_id"
| "app (GET_books_reviews book_id minrating maxrating) = get_book_reviews book_id minrating maxrating"
| "app (GET_adaptations_books tconst) = get_book_adaptations_for_movie tconst"
| "app (GET_adaptations_movies book_id) = get_movie_adaptations_for_book book_id"
| "app (GET_movies_details movie_title) = moviesDetails movie_title"
| "app (GET_movies_details_id tconst) = moviesDetailsWithId tconst"
| "app (GET_search_movies t a g lo hi rlo rhi) = searchMovies t a g lo hi rlo rhi"
| "app (GET_books_search title name genre yearLow yearHigh) = search_books title name genre yearLow yearHigh"
| "app GET_topMoviesByGenre = topMoviesByGenre"
| "app GET_topAuthors = book_analytics_top_authors"
| "app (GET_reviews_movie_ratings invalid) = correlationReviewsMovieRatings invalid"
| "app (GET_PositiveReviews invalid) = PositiveReviewsforBooksvsLowMovierating invalid"
| "app GET_BookAndMovieOutliers = BookAndMovieOutliers"

text \<open>A sequence of requests, each handled on the connection the one before left.\<close>

fun serve :: "request list \<Rightarrow> conn \<Rightarrow> response list \<times> conn" where
  "serve [] c = ([], c)"
| "serve (r # rs) c =
     (let (resp, c') = app r c; (resps, c'') = serve rs c' in (resp # resps, c''))"

subsection \<open>Predicates on requests, statements and responses\<close>

text \<open>A body that is a JSON array of rows, or an object with a message or an error field.\<close>

fun array_or_object :: "json \<Rightarrow> bool" where
  "array_or_object (JArray rows) = True"
| "array_or_object (JObject kvs) = (map_of kvs ''message'' \<noteq> None \<or> map_of kvs ''error'' \<noteq> None)"
| "array_or_object (JString s) = False"

fun is_signup :: "request \<Rightarrow> bool" where
  "is_signup (POST_signup u p) = True"
| "is_signup _ = False"

fun is_select :: "statement \<Rightarrow> bool" where
  "is_select (INSERT_login u p) = False"
| "is_select _ = True"


text \<open>The requests whose statement, with the defaults of the handler filled in, is plain.\<close>

fun request_plain :: "request \<Rightarrow> bool" where
  "request_plain (POST_signup username pw) = True"
| "request_plain (POST_login username password) = True"
| "request_plain (GET_book_details book_id) = plain (SELECT_book_details book_id)"
| "request_plain (GET_books_reviews book_id minrating maxrating) =
     plain (SELECT_book_reviews (nullish book_id []) (nullish minrating ''0'') (nullish maxrating ''5''))"
| "request_plain (GET_adaptations_books tconst) = plain (SELECT_book_adaptations_for_movie tconst)"
| "request_plain (GET_adaptations_movies book_id) = plain (SELECT_movie_adaptations_for_book book_id)"
| "request_plain (GET_movies_details movie_title) = plain (SELECT_moviesDetails (nullish movie_title []))"
| "request_plain (GET_movies_details_id tconst) = plain (SELECT_moviesDetailsWithId tconst)"
| "request_plain (GET_search_movies t a g lo hi rlo rhi) =
     plain (SELECT_searchMovies (nullish t []) (nullish a ''false'') (nullish g [])
              (nullish lo ''1'') (nullish hi ''60000'') (nullish rlo ''0'') (nullish rhi ''10''))"
| "request_plain (GET_books_search title name genre yearLow yearHigh) =
     plain (SELECT_search_books (nullish title []) (nullish name []) (nullish genre []) yearLow yearHigh)"
| "request_plain GET_topMoviesByGenre = True"
| "request_plain GET_topAuthors = True"
| "request_plain (GET_reviews_movie_ratings invalid) = True"
| "request_plain (GET_PositiveReviews invalid) = True"
| "request_plain GET_BookAndMovieOutliers = True"

subsection \<open>The adaptation lookup in the words of the specification\<close>

text \<open>A row of the mapping table together with its movie and its book.\<close>

definition mapped ::
  "database \<Rightarrow> movies_metadata_row \<Rightarrow> books_movies_map_row \<Rightarrow> books_data_row \<Rightarrow> bool" where
  "mapped db m bm b =
     (m \<in> set (movies_metadata db) \<and> bm \<in> set (books_movies_map db) \<and> b \<in> set (books_data db)
      \<and> mm_tconst m = bm_tconst bm \<and> bd_book_id b = bm_book_id bm)"

text \<open>The arithmetic mean of a list of ratings; there is none for the empty list.\<close>

definition arithmetic_mean :: "rat list \<Rightarrow> rat option" where
  "arithmetic_mean xs = (if xs = [] then None else Some (sum_list xs / of_nat (length xs)))"

text \<open>The mean of the individual review ratings of a book in books_rating.\<close>

definition review_mean :: "database \<Rightarrow> int \<Rightarrow> rat option" where
  "review_mean db k =
     arithmetic_mean (map br_rating (filter (\<lambda>r. br_book_id r = k) (books_rating db)))"

text \<open>No mapped movie of the given tconst, or of the given book, runs longer than \<open>m\<close>.\<close>

definition highest_runtime_for_movie :: "database \<Rightarrow> string \<Rightarrow> movies_metadata_row \<Rightarrow> bool" where
  "highest_runtime_for_movie db tconst m =
     (\<forall>m'\<in>set (movies_metadata db). \<forall>bm'\<in>set (books_movies_map db). \<forall>b'\<in>set (books_data db).
        mapped db m' bm' b' \<and> mm_tconst m' = tconst \<longrightarrow> mm_runtimeminutes m' \<le> mm_runtimeminutes m)"

definition highest_runtime_for_book :: "database \<Rightarrow> int \<Rightarrow> movies_metadata_row \<Rightarrow> bool" where
  "highest_runtime_for_book db n m =
     (\<forall>m'\<in>set (movies_metadata db). \<forall>bm'\<in>set (books_movies_map db). \<forall>b'\<in>set (books_data db).
        mapped db m' bm' b' \<and> bd_book_id b' = n \<longrightarrow> mm_runtimeminutes m' \<le> mm_runtimeminutes m)"

subsection \<open>The outlier list in the words of the specification\<close>

text \<open>The view that holds the global statistics for the entries with a given label.\<close>

definition stats_view :: "database \<Rightarrow> string \<Rightarrow> stats_row list" where
  "stats_view db label = (if label = ''Book'' then BookStats db else MovieStats db)"

text \<open>
  The ratings of a title, from the tables: the rating of every review of a book of that
  title, and the rating of every rating row of a movie of that title. A review belongs to a
  book by its book_id, a rating row to a movie by its movie_id.
\<close>

definition book_title_ratings :: "database \<Rightarrow> string \<Rightarrow> rat list" where
  "book_title_ratings db t =
     [br_rating br. br \<leftarrow> books_rating db, bd \<leftarrow> books_data db,
        bd_book_id bd = br_book_id br \<and> bd_title bd = t]"

definition movie_title_ratings :: "database \<Rightarrow> string \<Rightarrow> rat list" where
  "movie_title_ratings db t =
     [mr_averagerating mr. mr \<leftarrow> movies_ratings db, mm \<leftarrow> movies_metadata db,
        mm_tconst mm = mr_movie_id mr \<and> mm_primarytitle mm = t]"

definition title_ratings :: "database \<Rightarrow> string \<Rightarrow> string \<Rightarrow> rat list" where
  "title_ratings db label t =
     (if label = ''Book'' then book_title_ratings db t else movie_title_ratings db t)"

text \<open>
  A list is unlabeled when nothing but title, average and z-score tells two of its entries
  apart: entries that agree on those three are the same row.
\<close>

definition entry_of :: "row \<Rightarrow> sqlval option \<times> sqlval option \<times> sqlval option" where
  "entry_of r = (map_of r ''media_title'', map_of r ''avg_rating'', map_of r ''z_score'')"

fun unlabeled :: "json \<Rightarrow> bool" where
  "unlabeled (JArray rows) = (\<forall>r\<in>set rows. \<forall>r'\<in>set rows. entry_of r = entry_of r' \<longrightarrow> r = r')"
| "unlabeled (JObject kvs) = True"
| "unlabeled (JString s) = True"

subsection \<open>Example states\<close>

definition db_empty :: database where
  "db_empty = \<lparr>login_tbl = [], books_data = [], books_rating = [], books_movies_map = [],
     movies_metadata = [], movies_ratings = [], BookStats = [], MovieStats = []\<rparr>"

definition conn_login :: conn where
  "conn_login = \<lparr>tables = db_empty\<lparr>login_tbl := [\<lparr>lg_username = ''validuser'', lg_password = ''validpassword''\<rparr>]\<rparr>,
     fault = None, answers = (\<lambda>q. Inr []), server = (\<lambda>t db. (Inl SyntaxError, db)), issued = []\<rparr>"

text \<open>One book with two reviews and two film adaptations, the longer of them rated.\<close>

definition db_adaptations :: database where
  "db_adaptations = db_empty
     \<lparr>books_data := [\<lparr>bd_book_id = 7, bd_title = ''Dune'', bd_description = ''A desert planet'',
          bd_image_link = ''dune.jpg'', bd_publisher = ''Chilton'', bd_published_date = ''1965-08-01''\<rparr>],
      books_rating := [\<lparr>br_book_id = 7, br_rating = 4\<rparr>, \<lparr>br_book_id = 7, br_rating = 5\<rparr>,
          \<lparr>br_book_id = 9, br_rating = 1\<rparr>],
      books_movies_map := [\<lparr>bm_book_id = 7, bm_tconst = ''tt0087182''\<rparr>,
          \<lparr>bm_book_id = 7, bm_tconst = ''tt1160419''\<rparr>],
      movies_metadata := [\<lparr>mm_tconst = ''tt0087182'', mm_primarytitle = ''Dune'', mm_isadult = False,
           mm_runtimeminutes = 137\<rparr>,
          \<lparr>mm_tconst = ''tt1160419'', mm_primarytitle = ''Dune: Part One'', mm_isadult = False,
           mm_runtimeminutes = 155\<rparr>],
      movies_ratings := [\<lparr>mr_movie_id = ''tt1160419'', mr_averagerating = 8\<rparr>]\<rparr>"

definition conn_adaptations :: conn where
  "conn_adaptations = \<lparr>tables = db_adaptations, fault = None, answers = (\<lambda>q. Inr []),
     server = (\<lambda>t db. (Inl SyntaxError, db)), issued = []\<rparr>"

definition conn_down :: conn where
  "conn_down = conn_adaptations\<lparr>fault := Some ConnectionError\<rparr>"

text \<open>
  A book and a film of the same title, both rated 5 against a mean of 3 with deviation 1/2,
  a book rated at the mean and a book rated 1.
\<close>

definition db_outliers :: database where
  "db_outliers = db_empty
     \<lparr>books_data := [\<lparr>bd_book_id = 1, bd_title = ''Dune'', bd_description = [], bd_image_link = [],
            bd_publisher = [], bd_published_date = []\<rparr>,
          \<lparr>bd_book_id = 2, bd_title = ''Emma'', bd_description = [], bd_image_link = [],
            bd_publisher = [], bd_published_date = []\<rparr>,
          \<lparr>bd_book_id = 3, bd_title = ''Ulysses'', bd_description = [], bd_image_link = [],
            bd_publisher = [], bd_published_date = []\<rparr>],
      books_rating := [\<lparr>br_book_id = 1, br_rating = 5\<rparr>, \<lparr>br_book_id = 2, br_rating = 3\<rparr>,
          \<lparr>br_book_id = 3, br_rating = 1\<rparr>],
      movies_metadata := [\<lparr>mm_tconst = ''tt1160419'', mm_primarytitle = ''Dune'', mm_isadult = False,
           mm_runtimeminutes = 155\<rparr>],
      movies_ratings := [\<lparr>mr_movie_id = ''tt1160419'', mr_averagerating = 5\<rparr>],
      BookStats := [\<lparr>avg_rating = Some 3, stddev_rating = Some (1 / 2)\<rparr>],
      MovieStats := [\<lparr>avg_rating = Some 3, stddev_rating = Some (1 / 2)\<rparr>]\<rparr>"

definition conn_outliers :: conn where
  "conn_outliers = \<lparr>tables = db_outliers, fault = None, answers = (\<lambda>q. Inr []),
     server = (\<lambda>t db. (Inl SyntaxError, db)), issued = []\<rparr>"

text \<open>The rows the outlier statement returns on that state.\<close>

definition rows_outliers :: "row list" where
  "rows_outliers =
     [[(''media_type'', SText ''Book''), (''media_title'', SText ''Dune''),
       (''avg_rating'', SNum 5), (''z_score'', SNum 4)],
      [(''media_type'', SText ''Movie''), (''media_title'', SText ''Dune''),
       (''avg_rating'', SNum 5), (''z_score'', SNum 4)],
      [(''media_type'', SText ''Book''), (''media_title'', SText ''Ulysses''),
       (''avg_rating'', SNum 1), (''z_score'', SNum (- 4))]]"

text \<open>
  Two editions of a book, with three reviews between them, and a book reviewed at the mean;
  two films of one title.
\<close>

definition db_ratings :: database where
  "db_ratings = db_empty
     \<lparr>books_data := [\<lparr>bd_book_id = 1, bd_title = ''Dune'', bd_description = [], bd_image_link = [],
            bd_publisher = [], bd_published_date = []\<rparr>,
          \<lparr>bd_book_id = 2, bd_title = ''Dune'', bd_description = [], bd_image_link = [],
            bd_publisher = [], bd_published_date = []\<rparr>,
          \<lparr>bd_book_id = 3, bd_title = ''Emma'', bd_description = [], bd_image_link = [],
            bd_publisher = [], bd_published_date = []\<rparr>],
      books_rating := [\<lparr>br_book_id = 1, br_rating = 5\<rparr>, \<lparr>br_book_id = 1, br_rating = 4\<rparr>,
          \<lparr>br_book_id = 2, br_rating = 5\<rparr>, \<lparr>br_book_id = 3, br_rating = 3\<rparr>,
          \<lparr>br_book_id = 3, br_rating = 3\<rparr>],
      movies_metadata := [\<lparr>mm_tconst = ''tt0113277'', mm_primarytitle = ''Heat'', mm_isadult = False,
           mm_runtimeminutes = 170\<rparr>,
          \<lparr>mm_tconst = ''tt0068688'', mm_primarytitle = ''Heat'', mm_isadult = False,
           mm_runtimeminutes = 102\<rparr>],
      movies_ratings := [\<lparr>mr_movie_id = ''tt0113277'', mr_averagerating = 1\<rparr>,
          \<lparr>mr_movie_id = ''tt0068688'', mr_averagerating = 2\<rparr>],
      BookStats := [\<lparr>avg_rating = Some 3, stddev_rating = Some (1 / 2)\<rparr>],
      MovieStats := [\<lparr>avg_rating = Some 6, stddev_rating = Some 2\<rparr>]\<rparr>"

definition conn_ratings :: conn where
  "conn_ratings = \<lparr>tables = db_ratings, fault = None, answers = (\<lambda>q. Inr []),
     server = (\<lambda>t db. (Inl SyntaxError, db)), issued = []\<rparr>"

definition rows_ratings :: "row list" where
  "rows_ratings =
     [[(''media_type'', SText ''Book''), (''media_title'', SText ''Dune''),
       (''avg_rating'', SNum (14 / 3)), (''z_score'', SNum (10 / 3))],
      [(''media_type'', SText ''Movie''), (''media_title'', SText ''Heat''),
       (''avg_rating'', SNum (3 / 2)), (''z_score'', SNum (- (9 / 4)))]]"

text \<open>
  A maxrating parameter that closes the literal of the template, adds a statement of its own
  and opens a third that takes up the rest of the template; and a connection whose server
  carries out a \<^verbatim>\<open>DELETE FROM login\<close> that it finds among the statements of a text.
\<close>

definition maxrating_injection :: string where
  "maxrating_injection = ''5'; DELETE FROM login; SELECT r.rating FROM books_rating r WHERE r.rating <= '5''"

text \<open>The three statements of the text that get_book_reviews sends with that parameter.\<close>

definition statements_injection :: "string list" where
  "statements_injection =
     [''SELECT b.title                 as book_title,'' @ nl
         @ ''               r.review                as book_review,'' @ nl
         @ ''               r.rating                as book_rating,'' @ nl
         @ ''               r.reviewer_profile_name as reviewer_profile_name,'' @ nl
         @ ''               r.total_votes           as book_review_votes'' @ nl
         @ ''        FROM books_rating r'' @ nl
         @ ''                 INNER JOIN books_data b ON r.book_id = b.book_id'' @ nl
         @ ''        WHERE b.book_id = '1'' @ sq @ nl
         @ ''          AND r.rating >= '0'' @ sq @ nl
         @ ''          AND r.rating <= '5'' @ sq,
      ''DELETE FROM login'',
      ''SELECT r.rating FROM books_rating r WHERE r.rating <= '5'' @ sq @ nl
         @ ''        order by r.rating DESC'']"

definition conn_injection :: conn where
  "conn_injection = \<lparr>tables = db_empty\<lparr>login_tbl := [\<lparr>lg_username = ''validuser'', lg_password = ''validpassword''\<rparr>]\<rparr>,
     fault = None, answers = (\<lambda>q. Inr []),
     server = (\<lambda>t db. if ''DELETE FROM login'' \<in> set (sql_statements t)
                        then (Inr [], db\<lparr>login_tbl := []\<rparr>) else (Inl SyntaxError, db)),
     issued = []\<rparr>"

section \<open>Properties\<close>

subsection \<open>Decimal literals\<close>

lemma digit_val_digit_char: "d < 10 \<Longrightarrow> digit_val (digit_char d) = Some d"
  by (simp add: digit_val_def digit_char_def Let_def)

lemma digits_val_append:
  "digits_val acc (xs @ [c]) =
     (case digits_val acc xs of None \<Rightarrow> None | Some v \<Rightarrow> map_option (\<lambda>d. 10 * v + d) (digit_val c))"
  by (induction xs arbitrary: acc) (auto split: option.splits)

lemma digits_val_dec_nat: "digits_val 0 (dec_nat n) = Some n"
proof (induction n rule: dec_nat.induct)
  case (1 n)
  show ?case
  proof (cases "n < 10")
    case True
    then show ?thesis by (simp add: dec_nat.simps [of n] digit_val_digit_char)
  next
    case False
    with 1 have ih: "digits_val 0 (dec_nat (n div 10)) = Some (n div 10)" by simp
    have "dec_nat n = dec_nat (n div 10) @ [digit_char (n mod 10)]"
      using False by (subst dec_nat.simps) simp
    then show ?thesis
      by (simp add: digits_val_append ih digit_val_digit_char)
  qed
qed

lemma dec_nat_nonempty: "dec_nat n \<noteq> []"
  by (subst dec_nat.simps) simp

lemma parse_nat_dec_nat: "parse_nat (dec_nat n) = Some n"
  by (simp add: parse_nat_def dec_nat_nonempty digits_val_dec_nat)

lemma digit_char_not_sign: "d < 10 \<Longrightarrow> digit_char d \<noteq> CHR ''-'' \<and> digit_char d \<noteq> CHR ''+''"
proof -
  assume d: "d < 10"
  have e: "(of_char (digit_char d) :: nat) = 48 + d"
    using d by (simp add: digit_char_def)
  have "(of_char (digit_char d) :: nat) \<noteq> of_char CHR ''-''"
    unfolding e by simp
  moreover have "(of_char (digit_char d) :: nat) \<noteq> of_char CHR ''+''"
    unfolding e by simp
  ultimately show ?thesis by auto
qed

lemma hd_dec_nat: "\<exists>d cs. d < 10 \<and> dec_nat n = digit_char d # cs"
proof (induction n rule: dec_nat.induct)
  case (1 n)
  show ?case
  proof (cases "n < 10")
    case True
    then show ?thesis by (auto simp add: dec_nat.simps [of n])
  next
    case False
    with 1 obtain d cs where "d < 10" "dec_nat (n div 10) = digit_char d # cs" by auto
    moreover have "dec_nat n = dec_nat (n div 10) @ [digit_char (n mod 10)]"
      using False by (subst dec_nat.simps) simp
    ultimately show ?thesis by auto
  qed
qed

lemma parse_int_dec: "parse_int (dec n) = Some n"
proof (cases "n < 0")
  case True
  then show ?thesis
    by (simp add: parse_int_def dec_def parse_nat_dec_nat)
next
  case False
  obtain d cs where d: "d < 10" "dec_nat (nat n) = digit_char d # cs"
    using hd_dec_nat by blast
  have "parse_nat (digit_char d # cs) = Some (nat n)"
    using parse_nat_dec_nat [of "nat n"] d by simp
  then show ?thesis
    using False d digit_char_not_sign [OF d(1)]
    by (simp add: parse_int_def dec_def)
qed

lemma dec_nonempty: "dec n \<noteq> []"
  by (simp add: dec_def dec_nat_nonempty)

lemma ToNumber_dec: "ToNumber (dec n) = Num n"
  by (simp add: ToNumber_def parse_int_dec dec_nonempty)

lemma js_lt_number_dec: "js_lt_number (dec n) k = (n < k)"
  by (simp add: js_lt_number_def ToNumber_dec)

lemma dec_minus_1: "dec (- 1) = ''-1''"
  by code_simp

lemma dec_minus_2: "dec (- 2) = ''-2''"
  by code_simp

subsection \<open>The connection\<close>

lemma issued_connection_query: "issued (snd (connection_query q c)) = issued c @ [q]"
  by (auto simp add: connection_query_def split: option.splits prod.splits)

lemma snd_rows_or_500: "snd (rows_or_500 rc) = snd rc"
  by (cases rc) (auto simp add: rows_or_500_def split: sum.splits)

subsection \<open>Login\<close>

text \<open>
  C6. When the statement of login succeeds, the response is decided by the first row stored
  for the username: with such a row whose password is the supplied string, status 200 and
  \<^verbatim>\<open>{message: 'Login successful'}\<close>; without a row, or with a different password,
  status 401 and \<^verbatim>\<open>{message: 'Incorrect username/password! Try again.'}\<close>. The
  comparison is equality of the two values, with no hashing.
\<close>

theorem login_response:
  assumes "fault c = None"
  shows "fst (login username password c) =
     (case filter (\<lambda>r. SText (lg_username r) = prepareValue username) (login_tbl (tables c)) of
        [] \<Rightarrow> respond 401 (JObject [(''message'', ''Incorrect username/password! Try again.'')])
      | r # _ \<Rightarrow>
          if password = JSString (lg_password r)
          then respond 200 (JObject [(''message'', ''Login successful'')])
          else respond 401 (JObject [(''message'', ''Incorrect username/password! Try again.'')]))"
proof (cases "prepareValue username")
  case (SText name)
  have f: "filter (\<lambda>r. SText (lg_username r) = SText name) (login_tbl (tables c))
         = filter (\<lambda>r. lg_username r = name) (login_tbl (tables c))"
    by simp
  show ?thesis
    using assms SText
    by (simp add: login_def connection_query_def run_statement_def select_login_def
        password_of_def login_result_row_def f split: list.splits)
qed (use assms in \<open>simp_all add: login_def connection_query_def run_statement_def select_login_def\<close>)

theorem login_response_witness:
  "fault conn_login = None
   \<and> fst (login (JSString ''validuser'') (JSString ''validpassword'') conn_login)
       = respond 200 (JObject [(''message'', ''Login successful'')])
   \<and> fst (login (JSString ''validuser'') (JSString ''wrongpassword'') conn_login)
       = respond 401 (JObject [(''message'', ''Incorrect username/password! Try again.'')])
   \<and> fst (login (JSString ''nonexistentuser'') (JSString ''password'') conn_login)
       = respond 401 (JObject [(''message'', ''Incorrect username/password! Try again.'')])"
proof -
  have h: "fault conn_login = None" by (simp add: conn_login_def)
  show ?thesis
    using h login_response [OF h, of "JSString ''validuser''" "JSString ''validpassword''"]
      login_response [OF h, of "JSString ''validuser''" "JSString ''wrongpassword''"]
      login_response [OF h, of "JSString ''nonexistentuser''" "JSString ''password''"]
    by (simp add: conn_login_def db_empty_def)
qed

subsection \<open>The guards on book_id\<close>

text \<open>
  C10. For a book_id that spells the integer \<open>n\<close>, get_movie_adaptations_for_book answers
  from its guard (status 500, no statement sent) exactly when \<open>n < -1\<close>; from \<open>-1\<close>
  upwards the statement is sent with the book_id interpolated, in particular for
  \<^verbatim>\<open>'-1'\<close>. get_book_details refuses every negative \<open>n\<close> with status 404.
\<close>

theorem movie_adaptations_guard:
  "(n < - 1 \<longrightarrow> get_movie_adaptations_for_book (dec n) c
                 = (respond 500 (JObject [(''error'', ''Internal Server Error'')]), c))
   \<and> (- 1 \<le> n \<longrightarrow> get_movie_adaptations_for_book (dec n) c
                 = rows_or_500 (connection_query (SELECT_movie_adaptations_for_book (dec n)) c))
   \<and> issued (snd (get_movie_adaptations_for_book (dec n) c))
       = (if n < - 1 then issued c else issued c @ [SELECT_movie_adaptations_for_book (dec n)])
   \<and> issued (snd (get_movie_adaptations_for_book ''-1'' c))
       = issued c @ [SELECT_movie_adaptations_for_book ''-1'']
   \<and> (n < 0 \<longrightarrow> get_book_details (dec n) c
                 = (respond 404 (JObject [(''message'', ''No books found'')]), c))"
proof -
  have q: "issued (snd (rows_or_500 (connection_query q c))) = issued c @ [q]" for q
    by (simp add: snd_rows_or_500 issued_connection_query)
  have m1: "issued (snd (get_movie_adaptations_for_book (dec (- 1)) c))
       = issued c @ [SELECT_movie_adaptations_for_book (dec (- 1))]"
    by (simp add: get_movie_adaptations_for_book_def js_lt_number_dec q)
  show ?thesis
    using m1 by (simp add: get_movie_adaptations_for_book_def get_book_details_def js_lt_number_dec q dec_minus_1)
qed

theorem movie_adaptations_guard_witness:
  "get_movie_adaptations_for_book ''-2'' conn_login
     = (respond 500 (JObject [(''error'', ''Internal Server Error'')]), conn_login)
   \<and> get_movie_adaptations_for_book ''-1'' conn_login
     = rows_or_500 (connection_query (SELECT_movie_adaptations_for_book ''-1'') conn_login)
   \<and> get_book_details ''-1'' conn_login
     = (respond 404 (JObject [(''message'', ''No books found'')]), conn_login)"
  using movie_adaptations_guard [of "- 2" conn_login] movie_adaptations_guard [of "- 1" conn_login]
  by (simp add: dec_minus_1 dec_minus_2)

subsection \<open>The year range of search_books\<close>

text \<open>Two strings of digits of the same length compare as the numbers they spell.\<close>

lemma digits_val_acc:
  "digits_val acc s = Some v \<longleftrightarrow>
     (\<exists>v0. digits_val 0 s = Some v0 \<and> v = acc * 10 ^ length s + v0)"
proof (induction s arbitrary: acc v)
  case Nil
  then show ?case by auto
next
  case (Cons c cs)
  show ?case
  proof (cases "digit_val c")
    case None
    then show ?thesis by simp
  next
    case (Some d)
    have "digits_val acc (c # cs) = Some v
        \<longleftrightarrow> (\<exists>v1. digits_val 0 cs = Some v1 \<and> v = (10 * acc + d) * 10 ^ length cs + v1)"
      using Some Cons.IH [of "10 * acc + d" v] by simp
    moreover have "(\<exists>v0. digits_val 0 (c # cs) = Some v0 \<and> v = acc * 10 ^ length (c # cs) + v0)
        \<longleftrightarrow> (\<exists>v1. digits_val 0 cs = Some v1 \<and> v = acc * 10 ^ length (c # cs) + (d * 10 ^ length cs + v1))"
      using Some Cons.IH [of d] by auto
    ultimately show ?thesis by (simp add: algebra_simps)
  qed
qed

lemma digit_val_less_10: "digit_val c = Some d \<Longrightarrow> d < 10"
  by (auto simp add: digit_val_def Let_def split: if_splits)

lemma digits_val_bound: "digits_val 0 s = Some v \<Longrightarrow> v < 10 ^ length s"
proof (induction s arbitrary: v)
  case Nil
  then show ?case by simp
next
  case (Cons c cs)
  define P :: nat where "P = 10 ^ length cs"
  from Cons.prems obtain d where d: "digit_val c = Some d" and r: "digits_val d cs = Some v"
    by (auto split: option.splits)
  from r obtain v0 where v0: "digits_val 0 cs = Some v0" and v: "v = d * P + v0"
    using digits_val_acc [of d cs v] unfolding P_def by blast
  have b: "v0 < P" using Cons.IH [OF v0] unfolding P_def .
  have "d + 1 \<le> 10" using digit_val_less_10 [OF d] by simp
  then have le: "(d + 1) * P \<le> 10 * P" by (rule mult_le_mono1)
  have e: "(d + 1) * P = d * P + P" by (simp add: add_mult_distrib)
  have "v < 10 * P" using b v le e by linarith
  then show ?case by (simp add: P_def)
qed

lemma digit_val_order:
  assumes "digit_val x = Some dx" and "digit_val y = Some dy"
  shows "((of_char y :: nat) < of_char x) = (dy < dx)" and "(y = x) = (dy = dx)"
proof -
  have x: "(of_char x :: nat) = 48 + dx" and y: "(of_char y :: nat) = 48 + dy"
    using assms by (auto simp add: digit_val_def Let_def split: if_splits)
  show "((of_char y :: nat) < of_char x) = (dy < dx)" by (simp add: x y)
  have "(y = x) = ((of_char y :: nat) = of_char x)" by simp
  then show "(y = x) = (dy = dx)" by (simp add: x y del: of_char_eq_iff)
qed

lemma js_lt_string_digits:
  assumes "length hi = length lo"
    and "digits_val 0 hi = Some h" and "digits_val 0 lo = Some l"
  shows "js_lt_string hi lo = (h < l)"
  using assms
proof (induction hi lo arbitrary: h l rule: list_induct2)
  case Nil
  then show ?case by simp
next
  case (Cons y ys x xs)
  define P :: nat where "P = 10 ^ length xs"
  have len: "length ys = length xs" using Cons.hyps by simp
  from Cons.prems obtain dy where dy: "digit_val y = Some dy" and ry: "digits_val dy ys = Some h"
    by (auto split: option.splits)
  from Cons.prems obtain dx where dx: "digit_val x = Some dx" and rx: "digits_val dx xs = Some l"
    by (auto split: option.splits)
  from ry obtain h0 where h0: "digits_val 0 ys = Some h0" and h: "h = dy * P + h0"
    using digits_val_acc [of dy ys h] unfolding P_def len by blast
  from rx obtain l0 where l0: "digits_val 0 xs = Some l0" and l: "l = dx * P + l0"
    using digits_val_acc [of dx xs l] unfolding P_def by blast
  have bh: "h0 < P" using digits_val_bound [OF h0] unfolding P_def len .
  have bl: "l0 < P" using digits_val_bound [OF l0] unfolding P_def .
  have ih: "js_lt_string ys xs = (h0 < l0)" using Cons.IH [OF h0 l0] .
  have step: "js_lt_string (y # ys) (x # xs) = (dy < dx \<or> (dy = dx \<and> h0 < l0))"
    by (simp add: digit_val_order [OF dx dy] ih)
  have num: "(h < l) = (dy < dx \<or> (dy = dx \<and> h0 < l0))"
  proof (cases "dy < dx")
    case True
    then have "dy + 1 \<le> dx" by simp
    then have le: "(dy + 1) * P \<le> dx * P" by (rule mult_le_mono1)
    have e: "(dy + 1) * P = dy * P + P" by (simp add: add_mult_distrib)
    have "h < l" using bh h l le e by linarith
    with True show ?thesis by simp
  next
    case False
    show ?thesis
    proof (cases "dy = dx")
      case True
      then show ?thesis using h l by simp
    next
      case ne: False
      with False have "dx + 1 \<le> dy" by simp
      then have le: "(dx + 1) * P \<le> dy * P" by (rule mult_le_mono1)
      have e: "(dx + 1) * P = dx * P + P" by (simp add: add_mult_distrib)
      have "l < h" using bl h l le e by linarith
      with False ne show ?thesis by simp
    qed
  qed
  show ?case using step num by simp
qed

lemma year_guard_same_length:
  assumes "length yearHigh = length yearLow"
    and "parse_nat yearHigh = Some h" and "parse_nat yearLow = Some l"
  shows "js_lt_param (Some yearHigh) (Some yearLow) = (h < l)"
  using assms js_lt_string_digits [of yearHigh yearLow h l]
  by (auto simp add: parse_nat_def split: if_splits)

text \<open>
  C4. The guard of search_books compares the two parameters as strings. With
  \<^verbatim>\<open>yearLow = '1000'\<close> and \<^verbatim>\<open>yearHigh = '999'\<close> the low year is the greater number,
  yet the guard lets the request through and the statement is sent; with the two values
  exchanged the range is valid and the request is refused with status 404.
\<close>

theorem search_books_year_guard:
  "search_books title name genre (Some ''1000'') (Some ''999'') c
     = rows_or_500 (connection_query
         (SELECT_search_books (nullish title []) (nullish name []) (nullish genre [])
            (Some ''1000'') (Some ''999'')) c)
   \<and> search_books title name genre (Some ''999'') (Some ''1000'') c
     = (respond 404 (JObject [(''error'', ''Invalid year range'')]), c)"
  by (simp add: search_books_def)

subsection \<open>The empty result of get_book_details\<close>

lemma not_negative_7: "js_lt_number ''7'' 0 = False"
  by code_simp

text \<open>
  C5. A book_id that is not negative and matches no book: the statement returns no rows, the
  test on \<^verbatim>\<open>data.length\<close> does not fire, and the response is status 200 with an empty
  array, not the 404 of the branch written for this case.
\<close>

theorem get_book_details_no_rows:
  "get_book_details ''7'' conn_login
     = (respond 200 (JArray []), conn_login\<lparr>issued := [SELECT_book_details ''7'']\<rparr>)"
  by (simp add: get_book_details_def not_negative_7 connection_query_def run_statement_def
      conn_login_def data_length_def plain_quoted_def)

subsection \<open>Response bodies\<close>


lemma rows_or_500_body: "array_or_object (body (fst (rows_or_500 rc)))"
  by (cases rc) (auto simp add: rows_or_500_def respond_def split: sum.splits)

lemma rows_or_500_status_body:
  "status (fst (rows_or_500 rc)) = 200 \<longrightarrow> array_or_object (body (fst (rows_or_500 rc)))"
  by (simp add: rows_or_500_body)



subsection \<open>Statements and tables\<close>

lemma tables_connection_query:
  "is_select q \<Longrightarrow> plain q \<Longrightarrow> tables (snd (connection_query q c)) = tables c"
  by (cases q)
     (auto simp add: connection_query_def run_statement_def plain_bare_def
       split: option.splits prod.splits)

lemma tables_rows_or_500:
  "is_select q \<Longrightarrow> plain q \<Longrightarrow> tables (snd (rows_or_500 (connection_query q c))) = tables c"
  by (simp add: snd_rows_or_500 tables_connection_query)

lemma issued_rows_or_500:
  "issued (snd (rows_or_500 (connection_query q c))) = issued c @ [q]"
  by (simp add: snd_rows_or_500 issued_connection_query)

lemma app_statements:
  assumes "\<not> is_signup r" and "request_plain r"
  shows "tables (snd (app r c)) = tables c
     \<and> (\<exists>qs. issued (snd (app r c)) = issued c @ qs \<and> length qs \<le> 1 \<and> list_all is_select qs)"
proof (cases r)
  case (POST_signup u p)
  with assms show ?thesis by simp
next
  case (POST_login u p)
  have "snd (login u p c) = snd (connection_query (SELECT_login u) c)"
    by (auto simp add: login_def Let_def split: prod.splits sum.splits list.splits)
  then show ?thesis using POST_login
    by (simp add: tables_connection_query issued_connection_query)
next
  case (GET_book_details b)
  have "snd (get_book_details b c) = c
      \<or> snd (get_book_details b c) = snd (connection_query (SELECT_book_details b) c)"
    by (auto simp add: get_book_details_def split: prod.splits sum.splits)
  then show ?thesis using GET_book_details assms
    by (auto simp add: tables_connection_query issued_connection_query)
next
  case (GET_books_reviews b lo hi)
  have "snd (get_book_reviews b lo hi c) = c
      \<or> snd (get_book_reviews b lo hi c)
         = snd (connection_query (SELECT_book_reviews (nullish b []) (nullish lo ''0'') (nullish hi ''5'')) c)"
    by (auto simp add: get_book_reviews_def Let_def split: prod.splits sum.splits)
  then show ?thesis using GET_books_reviews assms
    by (auto simp add: tables_connection_query issued_connection_query)
next
  case (GET_adaptations_books t)
  then show ?thesis using assms
    by (auto simp add: get_book_adaptations_for_movie_def tables_rows_or_500 issued_rows_or_500)
next
  case (GET_adaptations_movies b)
  then show ?thesis using assms
    by (auto simp add: get_movie_adaptations_for_book_def tables_rows_or_500 issued_rows_or_500)
next
  case (GET_movies_details t)
  then show ?thesis using assms
    by (auto simp add: moviesDetails_def tables_rows_or_500 issued_rows_or_500)
next
  case (GET_movies_details_id t)
  then show ?thesis using assms
    by (auto simp add: moviesDetailsWithId_def Let_def tables_rows_or_500 issued_rows_or_500)
next
  case (GET_search_movies t a g lo hi rlo rhi)
  then show ?thesis using assms
    by (auto simp add: searchMovies_def tables_rows_or_500 issued_rows_or_500)
next
  case (GET_books_search t n g lo hi)
  then show ?thesis using assms
    by (auto simp add: search_books_def Let_def tables_rows_or_500 issued_rows_or_500)
next
  case GET_topMoviesByGenre
  then show ?thesis
    by (auto simp add: topMoviesByGenre_def tables_rows_or_500 issued_rows_or_500)
next
  case GET_topAuthors
  then show ?thesis
    by (auto simp add: book_analytics_top_authors_def tables_rows_or_500 issued_rows_or_500)
next
  case (GET_reviews_movie_ratings i)
  then show ?thesis
    by (auto simp add: correlationReviewsMovieRatings_def tables_rows_or_500 issued_rows_or_500)
next
  case (GET_PositiveReviews i)
  have "snd (PositiveReviewsforBooksvsLowMovierating i c) = c
      \<or> snd (PositiveReviewsforBooksvsLowMovierating i c) = snd (connection_query SELECT_books_to_movies c)"
    by (auto simp add: PositiveReviewsforBooksvsLowMovierating_def split: prod.splits sum.splits)
  then show ?thesis using GET_PositiveReviews
    by (auto simp add: tables_connection_query issued_connection_query)
next
  case GET_BookAndMovieOutliers
  then show ?thesis
    by (auto simp add: BookAndMovieOutliers_def tables_rows_or_500 issued_rows_or_500)
qed

lemma serve_tables:
  "list_all (\<lambda>r. \<not> is_signup r \<and> request_plain r) rs \<Longrightarrow> tables (snd (serve rs c)) = tables c"
proof (induction rs arbitrary: c)
  case Nil
  then show ?case by simp
next
  case (Cons r rs)
  then have r: "\<not> is_signup r" "request_plain r"
    and rs: "list_all (\<lambda>r. \<not> is_signup r \<and> request_plain r) rs" by simp_all
  have "tables (snd (serve (r # rs) c)) = tables (snd (serve rs (snd (app r c))))"
    by (simp add: split_beta)
  also have "\<dots> = tables (snd (app r c))" using Cons.IH [OF rs] .
  also have "\<dots> = tables c" using app_statements [OF r] by simp
  finally show ?case .
qed

lemma signup_effect:
  "issued (snd (signup u p c)) = issued c @ [INSERT_login u p]
   \<and> (tables (snd (signup u p c)) = tables c
      \<or> (\<exists>row. tables (snd (signup u p c))
            = (tables c)\<lparr>login_tbl := login_tbl (tables c) @ [row]\<rparr>))"
proof -
  have s: "snd (signup u p c) = snd (connection_query (INSERT_login u p) c)"
    by (auto simp add: signup_def split: prod.splits sum.splits)
  have "tables (snd (connection_query (INSERT_login u p) c)) = tables c
      \<or> (\<exists>row. tables (snd (connection_query (INSERT_login u p) c))
            = (tables c)\<lparr>login_tbl := login_tbl (tables c) @ [row]\<rparr>)"
    by (auto simp add: connection_query_def run_statement_def insert_login_def
        split: option.splits sum.splits sqlval.splits if_splits)
  then show ?thesis by (simp add: s issued_connection_query)
qed

lemma injection_statements:
  "sql_statements (query_text (SELECT_book_reviews ''1'' ''0'' maxrating_injection)) = statements_injection"
  by code_simp

lemma not_negative_1: "js_lt_number ''1'' 0 = False"
  by code_simp

text \<open>
  C9. A request other than signup can change the tables. get_book_reviews splices its
  \<^verbatim>\<open>maxrating\<close> parameter between the quotes of its template. With the parameter
  \<^verbatim>\<open>5'; DELETE FROM login; SELECT r.rating FROM books_rating r WHERE r.rating <= '5\<close>
  the request is not a signup and sends one text; the text holds three statements, the second
  of them \<^verbatim>\<open>DELETE FROM login\<close>; on a server that carries it out the login table,
  which held a row before the request, is empty after it. (By app_statements and serve_tables
  the tables stay as they were when every spliced parameter spells a literal.)
\<close>

theorem reviews_request_deletes_logins:
  "\<not> is_signup (GET_books_reviews (Some ''1'') None (Some maxrating_injection))
   \<and> issued (snd (app (GET_books_reviews (Some ''1'') None (Some maxrating_injection)) conn_injection))
       = [SELECT_book_reviews ''1'' ''0'' maxrating_injection]
   \<and> sql_statements (query_text (SELECT_book_reviews ''1'' ''0'' maxrating_injection)) = statements_injection
   \<and> statements_injection ! 1 = ''DELETE FROM login''
   \<and> login_tbl (tables conn_injection) = [\<lparr>lg_username = ''validuser'', lg_password = ''validpassword''\<rparr>]
   \<and> login_tbl (tables (snd (app (GET_books_reviews (Some ''1'') None (Some maxrating_injection)) conn_injection))) = []"
proof -
  have np: "\<not> plain (SELECT_book_reviews ''1'' ''0'' maxrating_injection)"
    by (simp add: plain_quoted_def maxrating_injection_def)
  have d: "''DELETE FROM login'' \<in> set statements_injection"
    by (simp add: statements_injection_def)
  note st = injection_statements [unfolded query_text.simps]
  have r: "run_statement conn_injection (SELECT_book_reviews ''1'' ''0'' maxrating_injection)
      = (Inr [], (tables conn_injection)\<lparr>login_tbl := []\<rparr>)"
    using np d by (simp add: run_statement_def conn_injection_def st)
  have f: "fault conn_injection = None" by (simp add: conn_injection_def)
  have a: "app (GET_books_reviews (Some ''1'') None (Some maxrating_injection)) conn_injection
      = (respond 200 (JArray []),
         conn_injection\<lparr>tables := (tables conn_injection)\<lparr>login_tbl := []\<rparr>,
           issued := [SELECT_book_reviews ''1'' ''0'' maxrating_injection]\<rparr>)"
    using r f
    by (simp add: get_book_reviews_def not_negative_1 connection_query_def data_length_def)
       (simp add: conn_injection_def)
  have i: "issued (snd (app (GET_books_reviews (Some ''1'') None (Some maxrating_injection)) conn_injection))
       = [SELECT_book_reviews ''1'' ''0'' maxrating_injection]"
    using a by simp
  have l: "login_tbl (tables (snd (app (GET_books_reviews (Some ''1'') None (Some maxrating_injection)) conn_injection))) = []"
    using a by simp
  have b: "login_tbl (tables conn_injection) = [\<lparr>lg_username = ''validuser'', lg_password = ''validpassword''\<rparr>]"
    by (simp add: conn_injection_def db_empty_def)
  have s1: "statements_injection ! 1 = ''DELETE FROM login''"
    by (simp add: statements_injection_def)
  have n: "\<not> is_signup (GET_books_reviews (Some ''1'') None (Some maxrating_injection))" by simp
  from n i injection_statements s1 b l show ?thesis by (intro conjI)
qed

subsection \<open>Joins, averages and ordering\<close>

lemma set_inner_join:
  "set (inner_join xs ys on) = {(x, y). x \<in> set xs \<and> y \<in> set ys \<and> on x y}"
  by (auto simp add: inner_join_def)

lemma left_join_Some:
  "(x, Some y) \<in> set (left_join xs ys on) \<longleftrightarrow> x \<in> set xs \<and> y \<in> set ys \<and> on x y"
proof -
  have "(x, Some y) \<in> set (case filter (on x') ys of [] \<Rightarrow> [(x', None)]
                                | m # ms \<Rightarrow> map (\<lambda>y. (x', Some y)) (m # ms))
        \<longleftrightarrow> x = x' \<and> y \<in> set (filter (on x') ys)" for x'
    by (cases "filter (on x') ys") auto
  then show ?thesis by (auto simp add: left_join_def)
qed

lemma left_join_None:
  "(x, None) \<in> set (left_join xs ys on) \<longleftrightarrow> x \<in> set xs \<and> (\<forall>y\<in>set ys. \<not> on x y)"
proof -
  have "(x, None) \<in> set (case filter (on x') ys of [] \<Rightarrow> [(x', None)]
                                | m # ms \<Rightarrow> map (\<lambda>y. (x', Some y)) (m # ms))
        \<longleftrightarrow> x = x' \<and> filter (on x') ys = []" for x'
    by (cases "filter (on x') ys") auto
  then show ?thesis by (auto simp add: left_join_def filter_empty_conv)
qed

lemma in_left_join:
  "(x, v) \<in> set (left_join xs ys on) \<longleftrightarrow>
     x \<in> set xs \<and> (case v of None \<Rightarrow> \<forall>y\<in>set ys. \<not> on x y | Some y \<Rightarrow> y \<in> set ys \<and> on x y)"
  by (cases v) (simp_all add: left_join_None left_join_Some)

lemma left_join_keeps:
  "x \<in> set xs \<Longrightarrow> \<exists>v. (x, v) \<in> set (left_join xs ys on)"
proof (cases "\<exists>y\<in>set ys. on x y")
  case True
  assume "x \<in> set xs"
  with True show ?thesis using left_join_Some [of x _ xs ys on] by blast
next
  case False
  assume "x \<in> set xs"
  with False show ?thesis using left_join_None [of x xs ys on] by blast
qed

lemma in_AverageBookRating:
  "(k, a) \<in> set (AverageBookRating rs) \<longleftrightarrow>
     k \<in> br_book_id ` set rs \<and> a = AVG (map br_rating (filter (\<lambda>r. br_book_id r = k) rs))"
  by (auto simp add: AverageBookRating_def)

lemma AVG_mean: "xs \<noteq> [] \<Longrightarrow> arithmetic_mean xs = Some (AVG xs)"
  by (simp add: arithmetic_mean_def AVG_def)

lemma review_mean_None:
  "k \<notin> br_book_id ` set (books_rating db) \<Longrightarrow> review_mean db k = None"
proof -
  assume "k \<notin> br_book_id ` set (books_rating db)"
  then have "filter (\<lambda>r. br_book_id r = k) (books_rating db) = []"
    by (auto simp add: filter_empty_conv)
  then show ?thesis by (simp add: review_mean_def arithmetic_mean_def)
qed

lemma review_mean_Some:
  "k \<in> br_book_id ` set (books_rating db) \<Longrightarrow>
     review_mean db k = Some (AVG (map br_rating (filter (\<lambda>r. br_book_id r = k) (books_rating db))))"
proof -
  assume "k \<in> br_book_id ` set (books_rating db)"
  then have "filter (\<lambda>r. br_book_id r = k) (books_rating db) \<noteq> []"
    by (auto simp add: filter_empty_conv)
  then show ?thesis by (simp add: review_mean_def AVG_mean)
qed

lemma order_by_desc_set: "set (order_by_desc k xs) = set xs"
  by (simp add: order_by_desc_def)

lemma order_by_desc_sorted: "sorted_wrt (\<lambda>a b. k b \<le> k a) (order_by_desc k xs)"
proof -
  have "sorted (map (\<lambda>x. - k x) (order_by_desc k xs))"
    by (simp add: order_by_desc_def)
  then show ?thesis
    by (simp add: sorted_map sorted_wrt_iff_nth_less)
qed

lemma limit_1_order_by_desc:
  "r \<in> set (limit 1 (order_by_desc k xs)) \<Longrightarrow> r \<in> set xs \<and> (\<forall>x\<in>set xs. k x \<le> k r)"
proof -
  assume r: "r \<in> set (limit 1 (order_by_desc k xs))"
  then obtain ys where ys: "order_by_desc k xs = r # ys"
    by (cases "order_by_desc k xs") (auto simp add: limit_def)
  have "sorted_wrt (\<lambda>a b. k b \<le> k a) (r # ys)"
    using order_by_desc_sorted [of k xs] ys by simp
  then have "\<forall>x\<in>set (r # ys). k x \<le> k r" by auto
  moreover have "set (r # ys) = set xs" using order_by_desc_set [of k xs] ys by simp
  ultimately show ?thesis by auto
qed

lemma length_limit_1: "length (limit 1 xs) \<le> 1"
  by (simp add: limit_def)

subsection \<open>The adaptation lookup\<close>

lemma fst_AverageBookRating: "fst ` set (AverageBookRating rs) = br_book_id ` set rs"
  by (auto simp add: AverageBookRating_def image_iff)

lemma in_book_adaptations_from:
  "((((m, bm), b), abr), mr) \<in> set (book_adaptations_from db) \<longleftrightarrow>
     mapped db m bm b
     \<and> (case abr of None \<Rightarrow> \<forall>y\<in>set (AverageBookRating (books_rating db)). bd_book_id b \<noteq> fst y
         | Some y \<Rightarrow> y \<in> set (AverageBookRating (books_rating db)) \<and> bd_book_id b = fst y)
     \<and> (case mr of None \<Rightarrow> \<forall>y\<in>set (movies_ratings db). mm_tconst m \<noteq> mr_movie_id y
         | Some y \<Rightarrow> y \<in> set (movies_ratings db) \<and> mm_tconst m = mr_movie_id y)"
  by (auto simp add: book_adaptations_from_def in_left_join set_inner_join mapped_def)

lemma in_movie_adaptations_from:
  "((((m, bm), b), abr), mr) \<in> set (movie_adaptations_from db n) \<longleftrightarrow>
     mapped db m bm b
     \<and> (case abr of
           None \<Rightarrow> \<forall>y\<in>set (AverageBookRating (filter (\<lambda>r. br_book_id r = n) (books_rating db))).
                     bd_book_id b \<noteq> fst y
         | Some y \<Rightarrow> y \<in> set (AverageBookRating (filter (\<lambda>r. br_book_id r = n) (books_rating db)))
                     \<and> bd_book_id b = fst y)
     \<and> (case mr of None \<Rightarrow> \<forall>y\<in>set (movies_ratings db). mm_tconst m \<noteq> mr_movie_id y
         | Some y \<Rightarrow> y \<in> set (movies_ratings db) \<and> mm_tconst m = mr_movie_id y)"
  by (auto simp add: movie_adaptations_from_def in_left_join set_inner_join mapped_def image_iff)

lemma abr_review_mean:
  assumes "case abr of None \<Rightarrow> \<forall>y\<in>set (AverageBookRating rs). k \<noteq> fst y
           | Some y \<Rightarrow> y \<in> set (AverageBookRating rs) \<and> k = fst y"
  shows "map_option snd abr = arithmetic_mean (map br_rating (filter (\<lambda>r. br_book_id r = k) rs))"
proof (cases abr)
  case None
  with assms have "k \<notin> fst ` set (AverageBookRating rs)" by auto
  then have "k \<notin> br_book_id ` set rs" by (simp add: fst_AverageBookRating)
  then have "filter (\<lambda>r. br_book_id r = k) rs = []" by (auto simp add: filter_empty_conv)
  with None show ?thesis by (simp add: arithmetic_mean_def)
next
  case (Some y)
  obtain k' a where y: "y = (k', a)" by (cases y)
  with Some assms have in_abr: "(k, a) \<in> set (AverageBookRating rs)" by auto
  then have k: "k \<in> br_book_id ` set rs"
    and a: "a = AVG (map br_rating (filter (\<lambda>r. br_book_id r = k) rs))"
    by (simp_all add: in_AverageBookRating)
  from k have "filter (\<lambda>r. br_book_id r = k) rs \<noteq> []" by (auto simp add: filter_empty_conv)
  then show ?thesis using Some y a by (simp add: AVG_mean)
qed

lemma mapped_in_book_adaptations_from:
  assumes "mapped db m bm b"
  shows "\<exists>abr mr. ((((m, bm), b), abr), mr) \<in> set (book_adaptations_from db)"
proof -
  have "((m, bm), b) \<in> set (inner_join
             (inner_join (movies_metadata db) (books_movies_map db)
                (\<lambda>m bm. mm_tconst m = bm_tconst bm))
             (books_data db) (\<lambda>(m, bm) b. bd_book_id b = bm_book_id bm))"
    using assms by (simp add: set_inner_join mapped_def)
  from left_join_keeps [OF this] obtain abr where
    "(((m, bm), b), abr) \<in> set (left_join (inner_join
             (inner_join (movies_metadata db) (books_movies_map db)
                (\<lambda>m bm. mm_tconst m = bm_tconst bm))
             (books_data db) (\<lambda>(m, bm) b. bd_book_id b = bm_book_id bm))
          (AverageBookRating (books_rating db)) (\<lambda>((m, bm), b) abr. bd_book_id b = fst abr))"
    by blast
  from left_join_keeps [OF this] show ?thesis
    unfolding book_adaptations_from_def by blast
qed

lemma mapped_in_movie_adaptations_from:
  assumes "mapped db m bm b"
  shows "\<exists>abr mr. ((((m, bm), b), abr), mr) \<in> set (movie_adaptations_from db n)"
proof -
  have "((b, bm), m) \<in> set (inner_join
                (inner_join (books_data db) (books_movies_map db)
                   (\<lambda>b bm. bd_book_id b = bm_book_id bm))
                (movies_metadata db) (\<lambda>(b, bm) m. bm_tconst bm = mm_tconst m))"
    using assms by (simp add: set_inner_join mapped_def)
  then have "((m, bm), b) \<in> set (map (\<lambda>((b, bm), m). ((m, bm), b)) (inner_join
                (inner_join (books_data db) (books_movies_map db)
                   (\<lambda>b bm. bd_book_id b = bm_book_id bm))
                (movies_metadata db) (\<lambda>(b, bm) m. bm_tconst bm = mm_tconst m)))"
    by force
  from left_join_keeps [OF this] obtain abr where
    "(((m, bm), b), abr) \<in> set (left_join (map (\<lambda>((b, bm), m). ((m, bm), b)) (inner_join
                (inner_join (books_data db) (books_movies_map db)
                   (\<lambda>b bm. bd_book_id b = bm_book_id bm))
                (movies_metadata db) (\<lambda>(b, bm) m. bm_tconst bm = mm_tconst m)))
          (AverageBookRating (filter (\<lambda>r. br_book_id r = n) (books_rating db)))
          (\<lambda>((m, bm), b) abr. bd_book_id b = fst abr))"
    by blast
  from left_join_keeps [OF this] show ?thesis
    unfolding movie_adaptations_from_def by blast
qed

lemma select_book_adaptations_rows:
  "length (select_book_adaptations_for_movie db tconst) \<le> 1
    \<and> (\<forall>r\<in>set (select_book_adaptations_for_movie db tconst). \<exists>m bm b.
          mapped db m bm b \<and> mm_tconst m = tconst \<and> highest_runtime_for_movie db tconst m
          \<and> map_of r ''book_id'' = Some (SInt (bd_book_id b))
          \<and> map_of r ''book_title'' = Some (SText (bd_title b))
          \<and> map_of r ''movie_title'' = Some (SText (mm_primarytitle m))
          \<and> map_of r ''book_rating'' = Some (nullable_num (review_mean db (bd_book_id b))))"
proof -
  let ?xs = "filter (\<lambda>j. mm_tconst (aj_movie j) = tconst) (book_adaptations_from db)"
  let ?k = "\<lambda>j. mm_runtimeminutes (aj_movie j)"
  let ?rows = "select_book_adaptations_for_movie db tconst"
  have rows: "?rows = map book_adaptation_row (limit 1 (order_by_desc ?k ?xs))"
    by (simp add: select_book_adaptations_for_movie_def)
  have len: "length ?rows \<le> 1" by (simp add: rows limit_def)
  have each: "\<exists>m bm b.
          mapped db m bm b \<and> mm_tconst m = tconst \<and> highest_runtime_for_movie db tconst m
          \<and> map_of r ''book_id'' = Some (SInt (bd_book_id b))
          \<and> map_of r ''book_title'' = Some (SText (bd_title b))
          \<and> map_of r ''movie_title'' = Some (SText (mm_primarytitle m))
          \<and> map_of r ''book_rating'' = Some (nullable_num (review_mean db (bd_book_id b)))"
    if r: "r \<in> set ?rows" for r
  proof -
    from r rows obtain j where j: "j \<in> set (limit 1 (order_by_desc ?k ?xs))"
      and rj: "r = book_adaptation_row j" by auto
    from limit_1_order_by_desc [OF j] have jx: "j \<in> set ?xs"
      and top: "\<forall>x\<in>set ?xs. ?k x \<le> ?k j" by simp_all
    obtain m bm b abr mr where jt: "j = ((((m, bm), b), abr), mr)"
      by (metis surj_pair)
    from jx jt have inj: "((((m, bm), b), abr), mr) \<in> set (book_adaptations_from db)"
      and mt: "mm_tconst m = tconst" by (simp_all add: aj_movie_def)
    from inj have mp: "mapped db m bm b"
      and ab: "case abr of None \<Rightarrow> \<forall>y\<in>set (AverageBookRating (books_rating db)). bd_book_id b \<noteq> fst y
         | Some y \<Rightarrow> y \<in> set (AverageBookRating (books_rating db)) \<and> bd_book_id b = fst y"
      by (simp_all add: in_book_adaptations_from)
    have mean: "map_option snd abr = review_mean db (bd_book_id b)"
      using abr_review_mean [OF ab] by (simp add: review_mean_def)
    have high: "highest_runtime_for_movie db tconst m"
      unfolding highest_runtime_for_movie_def
    proof (intro ballI impI)
      fix m' bm' b'
      assume "mapped db m' bm' b' \<and> mm_tconst m' = tconst"
      then have mp': "mapped db m' bm' b'" and mt': "mm_tconst m' = tconst" by simp_all
      from mapped_in_book_adaptations_from [OF mp'] obtain abr' mr'
        where "((((m', bm'), b'), abr'), mr') \<in> set (book_adaptations_from db)" by blast
      with mt' have "((((m', bm'), b'), abr'), mr') \<in> set ?xs" by (simp add: aj_movie_def)
      with top have "?k ((((m', bm'), b'), abr'), mr') \<le> ?k j" by blast
      then show "mm_runtimeminutes m' \<le> mm_runtimeminutes m" by (simp add: jt aj_movie_def)
    qed
    show ?thesis
      using mp mt high mean rj jt
      by (intro exI [of _ m] exI [of _ bm] exI [of _ b])
         (simp add: book_adaptation_row_def aj_book_def aj_movie_def aj_abr_def)
  qed
  show ?thesis using len each by blast
qed

lemma limit_1_empty: "limit (Suc 0) (order_by_desc k xs) = [] \<longleftrightarrow> xs = []"
proof -
  have "length (order_by_desc k xs) = length xs" by (simp add: order_by_desc_def)
  then show ?thesis by (cases "order_by_desc k xs") (auto simp add: limit_def)
qed

lemma select_book_adaptations_some:
  "select_book_adaptations_for_movie db tconst \<noteq> []
     \<longleftrightarrow> (\<exists>m bm b. mapped db m bm b \<and> mm_tconst m = tconst)"
proof
  assume "select_book_adaptations_for_movie db tconst \<noteq> []"
  then obtain r where "r \<in> set (select_book_adaptations_for_movie db tconst)"
    by (cases "select_book_adaptations_for_movie db tconst") auto
  with select_book_adaptations_rows [of db tconst]
  show "\<exists>m bm b. mapped db m bm b \<and> mm_tconst m = tconst" by blast
next
  assume "\<exists>m bm b. mapped db m bm b \<and> mm_tconst m = tconst"
  then obtain m bm b where mp: "mapped db m bm b" and mt: "mm_tconst m = tconst" by blast
  from mapped_in_book_adaptations_from [OF mp] obtain abr mr
    where "((((m, bm), b), abr), mr) \<in> set (book_adaptations_from db)" by blast
  with mt have "((((m, bm), b), abr), mr)
      \<in> set (filter (\<lambda>j. mm_tconst (aj_movie j) = tconst) (book_adaptations_from db))"
    by (simp add: aj_movie_def)
  from length_pos_if_in_set [OF this]
  have "filter (\<lambda>j. mm_tconst (aj_movie j) = tconst) (book_adaptations_from db) \<noteq> []"
    by simp
  then show "select_book_adaptations_for_movie db tconst \<noteq> []"
    by (simp add: select_book_adaptations_for_movie_def limit_1_empty)
qed

lemma select_movie_adaptations_rows:
  "length (select_movie_adaptations_for_book db n) \<le> 1
    \<and> (\<forall>r\<in>set (select_movie_adaptations_for_book db n). \<exists>m bm b.
          mapped db m bm b \<and> bd_book_id b = n \<and> highest_runtime_for_book db n m
          \<and> map_of r ''book_title'' = Some (SText (bd_title b))
          \<and> map_of r ''movie_id'' = Some (SText (mm_tconst m))
          \<and> map_of r ''movie_title'' = Some (SText (mm_primarytitle m))
          \<and> map_of r ''book_average_rating'' = Some (nullable_num (review_mean db n)))"
proof -
  let ?xs = "filter (\<lambda>j. bd_book_id (aj_book j) = n) (movie_adaptations_from db n)"
  let ?k = "\<lambda>j. mm_runtimeminutes (aj_movie j)"
  let ?rows = "select_movie_adaptations_for_book db n"
  have rows: "?rows = map movie_adaptation_row (limit 1 (order_by_desc ?k ?xs))"
    by (simp add: select_movie_adaptations_for_book_def)
  have len: "length ?rows \<le> 1" by (simp add: rows limit_def)
  have each: "\<exists>m bm b.
          mapped db m bm b \<and> bd_book_id b = n \<and> highest_runtime_for_book db n m
          \<and> map_of r ''book_title'' = Some (SText (bd_title b))
          \<and> map_of r ''movie_id'' = Some (SText (mm_tconst m))
          \<and> map_of r ''movie_title'' = Some (SText (mm_primarytitle m))
          \<and> map_of r ''book_average_rating'' = Some (nullable_num (review_mean db n))"
    if r: "r \<in> set ?rows" for r
  proof -
    from r rows obtain j where j: "j \<in> set (limit 1 (order_by_desc ?k ?xs))"
      and rj: "r = movie_adaptation_row j" by auto
    from limit_1_order_by_desc [OF j] have jx: "j \<in> set ?xs"
      and top: "\<forall>x\<in>set ?xs. ?k x \<le> ?k j" by simp_all
    obtain m bm b abr mr where jt: "j = ((((m, bm), b), abr), mr)"
      by (metis surj_pair)
    from jx jt have inj: "((((m, bm), b), abr), mr) \<in> set (movie_adaptations_from db n)"
      and bn: "bd_book_id b = n" by (simp_all add: aj_book_def)
    from inj have mp: "mapped db m bm b"
      and ab: "case abr of
           None \<Rightarrow> \<forall>y\<in>set (AverageBookRating (filter (\<lambda>r. br_book_id r = n) (books_rating db))).
                     bd_book_id b \<noteq> fst y
         | Some y \<Rightarrow> y \<in> set (AverageBookRating (filter (\<lambda>r. br_book_id r = n) (books_rating db)))
                     \<and> bd_book_id b = fst y"
      by (simp_all add: in_movie_adaptations_from)
    have "map_option snd abr
        = arithmetic_mean (map br_rating (filter (\<lambda>r. br_book_id r = bd_book_id b)
            (filter (\<lambda>r. br_book_id r = n) (books_rating db))))"
      using abr_review_mean [OF ab] .
    then have mean: "map_option snd abr = review_mean db n"
      by (simp add: review_mean_def bn)
    have high: "highest_runtime_for_book db n m"
      unfolding highest_runtime_for_book_def
    proof (intro ballI impI)
      fix m' bm' b'
      assume "mapped db m' bm' b' \<and> bd_book_id b' = n"
      then have mp': "mapped db m' bm' b'" and bn': "bd_book_id b' = n" by simp_all
      from mapped_in_movie_adaptations_from [OF mp'] obtain abr' mr'
        where "((((m', bm'), b'), abr'), mr') \<in> set (movie_adaptations_from db n)" by blast
      with bn' have "((((m', bm'), b'), abr'), mr') \<in> set ?xs" by (simp add: aj_book_def)
      with top have "?k ((((m', bm'), b'), abr'), mr') \<le> ?k j" by blast
      then show "mm_runtimeminutes m' \<le> mm_runtimeminutes m" by (simp add: jt aj_movie_def)
    qed
    show ?thesis
      using mp bn high mean rj jt
      by (intro exI [of _ m] exI [of _ bm] exI [of _ b])
         (simp add: movie_adaptation_row_def aj_book_def aj_movie_def aj_abr_def)
  qed
  show ?thesis using len each by blast
qed

lemma select_movie_adaptations_some:
  "select_movie_adaptations_for_book db n \<noteq> []
     \<longleftrightarrow> (\<exists>m bm b. mapped db m bm b \<and> bd_book_id b = n)"
proof
  assume "select_movie_adaptations_for_book db n \<noteq> []"
  then obtain r where "r \<in> set (select_movie_adaptations_for_book db n)"
    by (cases "select_movie_adaptations_for_book db n") auto
  with select_movie_adaptations_rows [of db n]
  show "\<exists>m bm b. mapped db m bm b \<and> bd_book_id b = n" by blast
next
  assume "\<exists>m bm b. mapped db m bm b \<and> bd_book_id b = n"
  then obtain m bm b where mp: "mapped db m bm b" and bn: "bd_book_id b = n" by blast
  from mapped_in_movie_adaptations_from [OF mp] obtain abr mr
    where "((((m, bm), b), abr), mr) \<in> set (movie_adaptations_from db n)" by blast
  with bn have "((((m, bm), b), abr), mr)
      \<in> set (filter (\<lambda>j. bd_book_id (aj_book j) = n) (movie_adaptations_from db n))"
    by (simp add: aj_book_def)
  from length_pos_if_in_set [OF this]
  have "filter (\<lambda>j. bd_book_id (aj_book j) = n) (movie_adaptations_from db n) \<noteq> []"
    by simp
  then show "select_movie_adaptations_for_book db n \<noteq> []"
    by (simp add: select_movie_adaptations_for_book_def limit_1_empty)
qed

lemma adaptations_query_ok:
  "fault c = None \<Longrightarrow> is_select q \<Longrightarrow> plain q \<Longrightarrow>
     connection_query q c = (fst (run_statement c q), c\<lparr>issued := issued c @ [q]\<rparr>)"
  by (cases q)
     (auto simp add: connection_query_def run_statement_def plain_bare_def split: prod.splits option.splits)

lemma book_adaptations_response:
  assumes "fault c = None" and "tconst \<noteq> []" and "plain_quoted tconst"
  shows "fst (get_book_adaptations_for_movie tconst c)
     = respond 200 (JArray (select_book_adaptations_for_movie (tables c) tconst))"
  using assms
  by (simp add: get_book_adaptations_for_movie_def adaptations_query_ok rows_or_500_def
      run_statement_def)

lemma movie_adaptations_response:
  assumes "fault c = None" and "- 1 \<le> n"
  shows "fst (get_movie_adaptations_for_book (dec n) c)
     = respond 200 (JArray (select_movie_adaptations_for_book (tables c) n))"
  using assms
  by (simp add: get_movie_adaptations_for_book_def js_lt_number_dec adaptations_query_ok
      rows_or_500_def run_statement_def plain_bare_def parse_int_dec)

lemma no_mapping_for_movie:
  assumes "tconst \<notin> bm_tconst ` set (books_movies_map db)"
  shows "select_book_adaptations_for_movie db tconst = []"
proof (rule ccontr)
  assume "select_book_adaptations_for_movie db tconst \<noteq> []"
  then obtain m bm b where "mapped db m bm b" "mm_tconst m = tconst"
    using select_book_adaptations_some by blast
  then have "bm \<in> set (books_movies_map db)" "bm_tconst bm = tconst"
    by (simp_all add: mapped_def)
  with assms show False by auto
qed

lemma no_mapping_for_book:
  assumes "n \<notin> bm_book_id ` set (books_movies_map db)"
  shows "select_movie_adaptations_for_book db n = []"
proof (rule ccontr)
  assume "select_movie_adaptations_for_book db n \<noteq> []"
  then obtain m bm b where "mapped db m bm b" "bd_book_id b = n"
    using select_movie_adaptations_some by blast
  then have "bm \<in> set (books_movies_map db)" "bm_book_id bm = n"
    by (simp_all add: mapped_def)
  with assms show False by auto
qed

text \<open>
  C1. With the connection up, each adaptation handler answers 200 with at most one row. For a
  movie tconst that spells a literal there is a row exactly when books_movies_map maps some
  book to a movie of that tconst; the row then belongs to such a mapping, no mapped movie of
  that tconst runs longer than the movie of the row, and the book_rating field is the
  arithmetic mean of the ratings of that book in books_rating (NULL when the book has no
  review). For a book id it is the same with the mapped movies of that book; there the mean
  stands in the field book_average_rating. Runtimes are values, so the order of the rows is
  the order of the numbers.
\<close>

theorem adaptation_lookup:
  assumes "fault c = None"
  shows "(tconst \<noteq> [] \<and> plain_quoted tconst \<longrightarrow>
           (\<exists>rows. fst (get_book_adaptations_for_movie tconst c) = respond 200 (JArray rows)
              \<and> length rows \<le> 1
              \<and> (rows \<noteq> [] \<longleftrightarrow> (\<exists>m bm b. mapped (tables c) m bm b \<and> mm_tconst m = tconst))
              \<and> (\<forall>r\<in>set rows. \<exists>m bm b.
                    mapped (tables c) m bm b \<and> mm_tconst m = tconst
                    \<and> highest_runtime_for_movie (tables c) tconst m
                    \<and> map_of r ''book_id'' = Some (SInt (bd_book_id b))
                    \<and> map_of r ''book_title'' = Some (SText (bd_title b))
                    \<and> map_of r ''movie_title'' = Some (SText (mm_primarytitle m))
                    \<and> map_of r ''book_rating''
                        = Some (nullable_num (review_mean (tables c) (bd_book_id b))))))
       \<and> (- 1 \<le> n \<longrightarrow>
           (\<exists>rows. fst (get_movie_adaptations_for_book (dec n) c) = respond 200 (JArray rows)
              \<and> length rows \<le> 1
              \<and> (rows \<noteq> [] \<longleftrightarrow> (\<exists>m bm b. mapped (tables c) m bm b \<and> bd_book_id b = n))
              \<and> (\<forall>r\<in>set rows. \<exists>m bm b.
                    mapped (tables c) m bm b \<and> bd_book_id b = n
                    \<and> highest_runtime_for_book (tables c) n m
                    \<and> map_of r ''book_title'' = Some (SText (bd_title b))
                    \<and> map_of r ''movie_id'' = Some (SText (mm_tconst m))
                    \<and> map_of r ''movie_title'' = Some (SText (mm_primarytitle m))
                    \<and> map_of r ''book_average_rating''
                        = Some (nullable_num (review_mean (tables c) n)))))"
proof (intro conjI impI)
  assume "tconst \<noteq> [] \<and> plain_quoted tconst"
  then have r: "fst (get_book_adaptations_for_movie tconst c)
     = respond 200 (JArray (select_book_adaptations_for_movie (tables c) tconst))"
    using book_adaptations_response [OF assms] by simp
  show "\<exists>rows. fst (get_book_adaptations_for_movie tconst c) = respond 200 (JArray rows)
              \<and> length rows \<le> 1
              \<and> (rows \<noteq> [] \<longleftrightarrow> (\<exists>m bm b. mapped (tables c) m bm b \<and> mm_tconst m = tconst))
              \<and> (\<forall>r\<in>set rows. \<exists>m bm b.
                    mapped (tables c) m bm b \<and> mm_tconst m = tconst
                    \<and> highest_runtime_for_movie (tables c) tconst m
                    \<and> map_of r ''book_id'' = Some (SInt (bd_book_id b))
                    \<and> map_of r ''book_title'' = Some (SText (bd_title b))
                    \<and> map_of r ''movie_title'' = Some (SText (mm_primarytitle m))
                    \<and> map_of r ''book_rating''
                        = Some (nullable_num (review_mean (tables c) (bd_book_id b))))"
    using r select_book_adaptations_rows [of "tables c" tconst]
      select_book_adaptations_some [of "tables c" tconst]
    by (intro exI [of _ "select_book_adaptations_for_movie (tables c) tconst"]) simp
next
  assume n: "- 1 \<le> n"
  have r: "fst (get_movie_adaptations_for_book (dec n) c)
     = respond 200 (JArray (select_movie_adaptations_for_book (tables c) n))"
    using movie_adaptations_response [OF assms n] .
  show "\<exists>rows. fst (get_movie_adaptations_for_book (dec n) c) = respond 200 (JArray rows)
              \<and> length rows \<le> 1
              \<and> (rows \<noteq> [] \<longleftrightarrow> (\<exists>m bm b. mapped (tables c) m bm b \<and> bd_book_id b = n))
              \<and> (\<forall>r\<in>set rows. \<exists>m bm b.
                    mapped (tables c) m bm b \<and> bd_book_id b = n
                    \<and> highest_runtime_for_book (tables c) n m
                    \<and> map_of r ''book_title'' = Some (SText (bd_title b))
                    \<and> map_of r ''movie_id'' = Some (SText (mm_tconst m))
                    \<and> map_of r ''movie_title'' = Some (SText (mm_primarytitle m))
                    \<and> map_of r ''book_average_rating''
                        = Some (nullable_num (review_mean (tables c) n)))"
    using r select_movie_adaptations_rows [of "tables c" n]
      select_movie_adaptations_some [of "tables c" n]
    by (intro exI [of _ "select_movie_adaptations_for_book (tables c) n"]) simp
qed

lemma dec_7: "dec 7 = ''7''"
  by code_simp

lemma eval_book_adaptations:
  "select_book_adaptations_for_movie db_adaptations ''tt0087182''
     = [[(''book_id'', SInt 7), (''book_title'', SText ''Dune''), (''book_rating'', SNum (9 / 2)),
             (''movie_title'', SText ''Dune''), (''avg_movie_rating'', SNull),
             (''is_movie_adult'', SBool False)]]"
  by (simp add: select_book_adaptations_for_movie_def book_adaptations_from_def db_adaptations_def
      db_empty_def inner_join_def left_join_def AverageBookRating_def AVG_def order_by_desc_def
      limit_def book_adaptation_row_def aj_movie_def aj_book_def aj_abr_def aj_mr_def)

lemma eval_movie_adaptations:
  "select_movie_adaptations_for_book db_adaptations 7
     = [[(''book_title'', SText ''Dune''), (''book_description'', SText ''A desert planet''),
             (''book_image_link'', SText ''dune.jpg''), (''book_publisher_name'', SText ''Chilton''),
             (''book_published_date'', SText ''1965-08-01''), (''book_average_rating'', SNum (9 / 2)),
             (''movie_title'', SText ''Dune: Part One''), (''avg_movie_rating'', SNum 8),
             (''is_movie_adult'', SBool False), (''movie_id'', SText ''tt1160419'')]]"
  by (simp add: select_movie_adaptations_for_book_def movie_adaptations_from_def db_adaptations_def
      db_empty_def inner_join_def left_join_def AverageBookRating_def AVG_def order_by_desc_def
      limit_def movie_adaptation_row_def aj_movie_def aj_book_def aj_abr_def aj_mr_def)

theorem adaptation_lookup_witness:
  "fault conn_adaptations = None \<and> ''tt0087182'' \<noteq> [] \<and> plain_quoted ''tt0087182''
   \<and> (- 1 :: int) \<le> 7
   \<and> fst (get_book_adaptations_for_movie ''tt0087182'' conn_adaptations)
       = respond 200 (JArray [[(''book_id'', SInt 7), (''book_title'', SText ''Dune''),
             (''book_rating'', SNum (9 / 2)), (''movie_title'', SText ''Dune''),
             (''avg_movie_rating'', SNull), (''is_movie_adult'', SBool False)]])
   \<and> fst (get_movie_adaptations_for_book ''7'' conn_adaptations)
       = respond 200 (JArray [[(''book_title'', SText ''Dune''), (''book_description'', SText ''A desert planet''),
             (''book_image_link'', SText ''dune.jpg''), (''book_publisher_name'', SText ''Chilton''),
             (''book_published_date'', SText ''1965-08-01''), (''book_average_rating'', SNum (9 / 2)),
             (''movie_title'', SText ''Dune: Part One''), (''avg_movie_rating'', SNum 8),
             (''is_movie_adult'', SBool False), (''movie_id'', SText ''tt1160419'')]])
   \<and> review_mean (tables conn_adaptations) 7 = Some (9 / 2)
   \<and> (\<exists>m bm b. mapped (tables conn_adaptations) m bm b \<and> bd_book_id b = 7)"
proof -
  have h: "fault conn_adaptations = None" by (simp add: conn_adaptations_def)
  have t: "tables conn_adaptations = db_adaptations" by (simp add: conn_adaptations_def)
  have p: "plain_quoted ''tt0087182''" by (simp add: plain_quoted_def)
  have b: "fst (get_book_adaptations_for_movie ''tt0087182'' conn_adaptations)
       = respond 200 (JArray [[(''book_id'', SInt 7), (''book_title'', SText ''Dune''),
             (''book_rating'', SNum (9 / 2)), (''movie_title'', SText ''Dune''),
             (''avg_movie_rating'', SNull), (''is_movie_adult'', SBool False)]])"
    using book_adaptations_response [OF h _ p] by (simp add: t eval_book_adaptations)
  have m: "fst (get_movie_adaptations_for_book ''7'' conn_adaptations)
       = respond 200 (JArray [[(''book_title'', SText ''Dune''), (''book_description'', SText ''A desert planet''),
             (''book_image_link'', SText ''dune.jpg''), (''book_publisher_name'', SText ''Chilton''),
             (''book_published_date'', SText ''1965-08-01''), (''book_average_rating'', SNum (9 / 2)),
             (''movie_title'', SText ''Dune: Part One''), (''avg_movie_rating'', SNum 8),
             (''is_movie_adult'', SBool False), (''movie_id'', SText ''tt1160419'')]])"
    using movie_adaptations_response [OF h, of 7] by (simp add: t eval_movie_adaptations dec_7)
  have le: "(- 1 :: int) \<le> 7" by simp
  from adaptation_lookup [OF h, of "''tt0087182''" 7, THEN conjunct2, THEN mp, OF le]
  obtain rows where r1: "fst (get_movie_adaptations_for_book (dec 7) conn_adaptations)
        = respond 200 (JArray rows)"
    and r2: "rows \<noteq> [] \<longleftrightarrow> (\<exists>m bm b. mapped (tables conn_adaptations) m bm b \<and> bd_book_id b = 7)"
    and r3: "\<forall>r\<in>set rows. \<exists>m bm b. mapped (tables conn_adaptations) m bm b \<and> bd_book_id b = 7
                    \<and> highest_runtime_for_book (tables conn_adaptations) 7 m
                    \<and> map_of r ''book_title'' = Some (SText (bd_title b))
                    \<and> map_of r ''movie_id'' = Some (SText (mm_tconst m))
                    \<and> map_of r ''movie_title'' = Some (SText (mm_primarytitle m))
                    \<and> map_of r ''book_average_rating''
                        = Some (nullable_num (review_mean (tables conn_adaptations) 7))"
    by (elim exE conjE) (rule that)
  from r1 m have rows: "rows = [[(''book_title'', SText ''Dune''), (''book_description'', SText ''A desert planet''),
             (''book_image_link'', SText ''dune.jpg''), (''book_publisher_name'', SText ''Chilton''),
             (''book_published_date'', SText ''1965-08-01''), (''book_average_rating'', SNum (9 / 2)),
             (''movie_title'', SText ''Dune: Part One''), (''avg_movie_rating'', SNum 8),
             (''is_movie_adult'', SBool False), (''movie_id'', SText ''tt1160419'')]]"
    by (simp add: dec_7 respond_def)
  from r2 rows have e: "\<exists>m bm b. mapped (tables conn_adaptations) m bm b \<and> bd_book_id b = 7"
    by simp
  from r3 rows have "nullable_num (review_mean (tables conn_adaptations) 7) = SNum (9 / 2)"
    by auto
  then have r: "review_mean (tables conn_adaptations) 7 = Some (9 / 2)"
    by (cases "review_mean (tables conn_adaptations) 7") simp_all
  from h p b m r e show ?thesis by (intro conjI) simp_all
qed

text \<open>
  C7. In both adaptation handlers a failed statement is answered with status 500 and
  \<^verbatim>\<open>{error: 'Internal Server Error'}\<close>, and a statement that succeeds with no rows
  with status 200 and an empty array. The statement returns no rows, in particular, when the
  connection is up, the parameter spells a literal and the title has no row in
  books_movies_map. (A tconst with a quote in it is answered from what the server makes of
  the text: 500 when the server refuses it.)
\<close>

theorem adaptations_failure_and_empty:
  "(fst (connection_query (SELECT_book_adaptations_for_movie tconst) c) = Inl e \<longrightarrow>
      fst (get_book_adaptations_for_movie tconst c)
        = respond 500 (JObject [(''error'', ''Internal Server Error'')]))
   \<and> (fst (connection_query (SELECT_movie_adaptations_for_book book_id) c) = Inl e \<longrightarrow>
      fst (get_movie_adaptations_for_book book_id c)
        = respond 500 (JObject [(''error'', ''Internal Server Error'')]))
   \<and> (tconst \<noteq> [] \<and> fst (connection_query (SELECT_book_adaptations_for_movie tconst) c) = Inr [] \<longrightarrow>
      fst (get_book_adaptations_for_movie tconst c) = respond 200 (JArray []))
   \<and> (\<not> js_lt_number book_id (- 1)
        \<and> fst (connection_query (SELECT_movie_adaptations_for_book book_id) c) = Inr [] \<longrightarrow>
      fst (get_movie_adaptations_for_book book_id c) = respond 200 (JArray []))
   \<and> (fault c = None \<and> tconst \<noteq> [] \<and> plain_quoted tconst
        \<and> tconst \<notin> bm_tconst ` set (books_movies_map (tables c)) \<longrightarrow>
      fst (get_book_adaptations_for_movie tconst c) = respond 200 (JArray []))
   \<and> (fault c = None \<and> - 1 \<le> n \<and> n \<notin> bm_book_id ` set (books_movies_map (tables c)) \<longrightarrow>
      fst (get_movie_adaptations_for_book (dec n) c) = respond 200 (JArray []))"
proof -
  have r: "fst (rows_or_500 rc) = (case fst rc of
              Inl err \<Rightarrow> respond 500 (JObject [(''error'', ''Internal Server Error'')])
            | Inr rows \<Rightarrow> respond 200 (JArray rows))" for rc
    by (cases rc) (auto simp add: rows_or_500_def split: sum.splits)
  have a: "fault c = None \<and> tconst \<noteq> [] \<and> plain_quoted tconst
        \<and> tconst \<notin> bm_tconst ` set (books_movies_map (tables c)) \<longrightarrow>
      fst (get_book_adaptations_for_movie tconst c) = respond 200 (JArray [])"
    by (simp add: book_adaptations_response no_mapping_for_movie)
  have b: "fault c = None \<and> - 1 \<le> n \<and> n \<notin> bm_book_id ` set (books_movies_map (tables c)) \<longrightarrow>
      fst (get_movie_adaptations_for_book (dec n) c) = respond 200 (JArray [])"
    by (simp add: movie_adaptations_response no_mapping_for_book)
  show ?thesis
    using a b by (simp add: get_book_adaptations_for_movie_def get_movie_adaptations_for_book_def r)
qed

theorem adaptations_failure_and_empty_witness:
  "fst (connection_query (SELECT_book_adaptations_for_movie ''tt0087182'') conn_down) = Inl ConnectionError
   \<and> fst (get_book_adaptations_for_movie ''tt0087182'' conn_down)
     = respond 500 (JObject [(''error'', ''Internal Server Error'')])
   \<and> fst (connection_query (SELECT_movie_adaptations_for_book ''7'') conn_down) = Inl ConnectionError
   \<and> fst (get_movie_adaptations_for_book ''7'' conn_down)
     = respond 500 (JObject [(''error'', ''Internal Server Error'')])
   \<and> fst (connection_query (SELECT_book_adaptations_for_movie (''tt'' @ sq)) conn_adaptations)
     = Inl SyntaxError
   \<and> fst (get_book_adaptations_for_movie (''tt'' @ sq) conn_adaptations)
     = respond 500 (JObject [(''error'', ''Internal Server Error'')])
   \<and> plain_quoted ''tt0111161''
   \<and> fst (connection_query (SELECT_book_adaptations_for_movie ''tt0111161'') conn_adaptations) = Inr []
   \<and> fst (get_book_adaptations_for_movie ''tt0111161'' conn_adaptations) = respond 200 (JArray [])
   \<and> fst (connection_query (SELECT_movie_adaptations_for_book ''-1'') conn_adaptations) = Inr []
   \<and> fst (get_movie_adaptations_for_book ''-1'' conn_adaptations) = respond 200 (JArray [])"
proof -
  have d: "fst (connection_query q conn_down) = Inl ConnectionError" for q
    by (simp add: connection_query_def conn_down_def conn_adaptations_def)
  have h: "fault conn_adaptations = None" by (simp add: conn_adaptations_def)
  have t: "''tt0111161'' \<notin> bm_tconst ` set (books_movies_map (tables conn_adaptations))"
    by (simp add: conn_adaptations_def db_adaptations_def db_empty_def)
  have m: "(- 1 :: int) \<notin> bm_book_id ` set (books_movies_map (tables conn_adaptations))"
    by (simp add: conn_adaptations_def db_adaptations_def db_empty_def)
  have p: "plain_quoted ''tt0111161''" by (simp add: plain_quoted_def)
  have pm: "parse_int ''-1'' = Some (- 1)" using parse_int_dec [of "- 1"] by (simp add: dec_minus_1)
  have x: "fst (connection_query (SELECT_book_adaptations_for_movie (''tt'' @ sq)) conn_adaptations)
     = Inl SyntaxError"
    by (simp add: connection_query_def run_statement_def plain_quoted_def conn_adaptations_def)
  have qt: "fst (connection_query (SELECT_book_adaptations_for_movie ''tt0111161'') conn_adaptations) = Inr []"
    using no_mapping_for_movie [OF t] p by (simp add: adaptations_query_ok [OF h] run_statement_def)
  have qm: "fst (connection_query (SELECT_movie_adaptations_for_book ''-1'') conn_adaptations) = Inr []"
    using no_mapping_for_book [OF m]
    by (simp add: adaptations_query_ok [OF h] run_statement_def plain_bare_def pm)
  have g: "\<not> js_lt_number ''-1'' (- 1)" using js_lt_number_dec [of "- 1" "- 1"] by (simp add: dec_minus_1)
  have w1: "fst (get_book_adaptations_for_movie ''tt0087182'' conn_down)
     = respond 500 (JObject [(''error'', ''Internal Server Error'')])"
    and w2: "fst (get_movie_adaptations_for_book ''7'' conn_down)
     = respond 500 (JObject [(''error'', ''Internal Server Error'')])"
    using adaptations_failure_and_empty [of "''tt0087182''" conn_down ConnectionError "''7''" "- 1"] d
    by simp_all
  have w3: "fst (get_book_adaptations_for_movie (''tt'' @ sq) conn_adaptations)
     = respond 500 (JObject [(''error'', ''Internal Server Error'')])"
    using adaptations_failure_and_empty [of "''tt'' @ sq" conn_adaptations SyntaxError "''7''" "- 1"] x
    by simp
  have w4: "fst (get_book_adaptations_for_movie ''tt0111161'' conn_adaptations) = respond 200 (JArray [])"
    and w5: "fst (get_movie_adaptations_for_book ''-1'' conn_adaptations) = respond 200 (JArray [])"
    using adaptations_failure_and_empty [of "''tt0111161''" conn_adaptations ConnectionError "''-1''" "- 1"]
      h t m p qt qm g
    by (simp_all add: dec_minus_1)
  from d [of "SELECT_book_adaptations_for_movie ''tt0087182''"] w1
    d [of "SELECT_movie_adaptations_for_book ''7''"] w2 x w3 p qt w4 qm w5
  show ?thesis by (intro conjI)
qed

subsection \<open>The outlier list\<close>

lemma z_expr_Some:
  "z_expr a s = Inr (Some v) \<Longrightarrow>
     \<exists>m d. avg_rating s = Some m \<and> stddev_rating s = Some d \<and> d \<noteq> 0 \<and> v = (a - m) / d"
  by (auto simp add: z_expr_def split: option.splits if_splits)

lemma having_outlier_entries:
  "having_outlier label rows gs = Inr os \<Longrightarrow>
     \<forall>x\<in>set os. media_type x = label \<and> \<bar>z_score x\<bar> > 2
       \<and> (\<exists>s m d. (media_title x, s) \<in> set gs
             \<and> avg_rating s = Some m \<and> stddev_rating s = Some d \<and> d \<noteq> 0
             \<and> z_score x = (o_avg_rating x - m) / d
             \<and> o_avg_rating x
                 = AVG (map (\<lambda>(t', r, s'). r) (filter (\<lambda>(t', r, s'). t' = media_title x \<and> s' = s) rows)))"
proof (induction gs arbitrary: os)
  case Nil
  then show ?case by simp
next
  case (Cons g gs)
  obtain t s where g: "g = (t, s)" by (cases g)
  let ?a = "AVG (map (\<lambda>(t', r, s'). r) (filter (\<lambda>(t', r, s'). t' = t \<and> s' = s) rows))"
  from Cons.prems g obtain z os' where z: "z_expr ?a s = Inr z"
    and rest: "having_outlier label rows gs = Inr os'"
    and os: "os = (case z of None \<Rightarrow> os'
                   | Some v \<Rightarrow> if \<bar>v\<bar> > 2
                       then \<lparr>media_type = label, media_title = t, o_avg_rating = ?a, z_score = v\<rparr> # os'
                       else os')"
    by (auto simp add: Let_def split: sum.splits option.splits if_splits)
  have ih: "\<forall>x\<in>set os'. media_type x = label \<and> \<bar>z_score x\<bar> > 2
       \<and> (\<exists>s m d. (media_title x, s) \<in> set (g # gs)
             \<and> avg_rating s = Some m \<and> stddev_rating s = Some d \<and> d \<noteq> 0
             \<and> z_score x = (o_avg_rating x - m) / d
             \<and> o_avg_rating x
                 = AVG (map (\<lambda>(t', r, s'). r) (filter (\<lambda>(t', r, s'). t' = media_title x \<and> s' = s) rows)))"
    using Cons.IH [OF rest] by (metis list.set_intros(2))
  show ?case
  proof (cases z)
    case None
    with os ih show ?thesis by simp
  next
    case (Some v)
    show ?thesis
    proof (cases "\<bar>v\<bar> > 2")
      case False
      with os Some ih show ?thesis by simp
    next
      case True
      from z Some z_expr_Some obtain m d where
        "avg_rating s = Some m" "stddev_rating s = Some d" "d \<noteq> 0" "v = (?a - m) / d"
        by blast
      then have new: "\<exists>s' m d. (t, s') \<in> set (g # gs)
             \<and> avg_rating s' = Some m \<and> stddev_rating s' = Some d \<and> d \<noteq> 0
             \<and> v = (?a - m) / d
             \<and> ?a = AVG (map (\<lambda>(t', r, s''). r) (filter (\<lambda>(t', r, s''). t' = t \<and> s'' = s') rows))"
        using g by (intro exI [of _ s] exI [of _ m] exI [of _ d]) simp
      from os Some True
      have "os = \<lparr>media_type = label, media_title = t, o_avg_rating = ?a, z_score = v\<rparr> # os'"
        by simp
      with ih new True show ?thesis by simp
    qed
  qed
qed

lemma outliers_cte_entries:
  assumes "outliers_cte label rows = Inr os" and "x \<in> set os"
  shows "media_type x = label \<and> \<bar>z_score x\<bar> > 2
       \<and> (\<exists>s m d r. (media_title x, r, s) \<in> set rows
             \<and> avg_rating s = Some m \<and> stddev_rating s = Some d \<and> d \<noteq> 0
             \<and> z_score x = (o_avg_rating x - m) / d
             \<and> o_avg_rating x
                 = AVG (map (\<lambda>(t', r, s'). r) (filter (\<lambda>(t', r, s'). t' = media_title x \<and> s' = s) rows)))"
proof -
  from having_outlier_entries [OF assms(1) [unfolded outliers_cte_def]] assms(2)
  obtain s m d where l: "media_type x = label" "\<bar>z_score x\<bar> > 2"
    and g: "(media_title x, s) \<in> set (remdups (map (\<lambda>(t, r, s). (t, s)) rows))"
    and st: "avg_rating s = Some m" "stddev_rating s = Some d" "d \<noteq> 0"
      "z_score x = (o_avg_rating x - m) / d"
      "o_avg_rating x
         = AVG (map (\<lambda>(t', r, s'). r) (filter (\<lambda>(t', r, s'). t' = media_title x \<and> s' = s) rows))"
    by blast
  from g obtain r where "(media_title x, r, s) \<in> set rows" by auto
  with l st show ?thesis by blast
qed

lemma BookOutliers_from_stats: "(t, r, s) \<in> set (BookOutliers_from db) \<Longrightarrow> s \<in> set (BookStats db)"
  by (auto simp add: BookOutliers_from_def set_inner_join)

lemma MovieOutliers_from_stats: "(t, r, s) \<in> set (MovieOutliers_from db) \<Longrightarrow> s \<in> set (MovieStats db)"
  by (auto simp add: MovieOutliers_from_def set_inner_join)

lemma outliers_union_parts:
  assumes "outliers_union db = Inr os"
  shows "\<exists>bs ms. outliers_cte ''Book'' (BookOutliers_from db) = Inr bs
           \<and> outliers_cte ''Movie'' (MovieOutliers_from db) = Inr ms
           \<and> os = order_by_desc z_score (bs @ ms)"
  using assms by (auto simp add: outliers_union_def split: sum.splits)

text \<open>
  The rows of a group. Each CTE groups the rows of a cross join with the statistics view by
  title and statistics; the group of a title holds every rating joined to the title as often
  as the view holds the row of statistics, so its average is the mean of those ratings.
\<close>

lemma group_of_cross_row:
  "map (\<lambda>(t', r, s'). r) (filter (\<lambda>(t', r, s'). t' = t \<and> s' = s) (map (\<lambda>s'. (a, b, s')) S))
     = (if a = t then replicate (count_list S s) b else [])"
  by (induction S) auto

lemma group_of_cross_join:
  "map (\<lambda>(t', r, s'). r) (filter (\<lambda>(t', r, s'). t' = t \<and> s' = s)
       (map (\<lambda>(x, s'). (k x, v x, s')) (inner_join J S (\<lambda>x s'. True))))
     = concat (map (\<lambda>x. replicate (count_list S s) (v x)) (filter (\<lambda>x. k x = t) J))"
proof (induction J)
  case Nil
  then show ?case by (simp add: inner_join_def)
next
  case (Cons x J)
  have j: "inner_join (x # J) S (\<lambda>x s'. True) = map (Pair x) S @ inner_join J S (\<lambda>x s'. True)"
    by (simp add: inner_join_def)
  have m: "map (\<lambda>(x, s'). (k x, v x, s')) (map (Pair x) S) = map (\<lambda>s'. (k x, v x, s')) S"
    by simp
  show ?case
    by (simp only: j map_append filter_append m group_of_cross_row Cons.IH) simp
qed

lemma sum_list_concat_replicate:
  "sum_list (concat (map (\<lambda>x. replicate n (v x)) xs)) = (of_nat n :: rat) * sum_list (map v xs)"
  by (induction xs) (simp_all add: sum_list_replicate algebra_simps)

lemma length_concat_replicate:
  "length (concat (map (\<lambda>x. replicate n (v x)) xs)) = n * length xs"
  by (induction xs) simp_all

lemma AVG_replicate:
  assumes "0 < n"
  shows "AVG (concat (map (\<lambda>x. replicate n (v x)) xs)) = AVG (map v xs)"
proof -
  have "(of_nat n :: rat) \<noteq> 0" using assms by simp
  then show ?thesis
    by (simp add: AVG_def sum_list_concat_replicate length_concat_replicate)
qed

lemma cross_group_mean:
  assumes "(t, r, s) \<in> set (map (\<lambda>(x, s'). (k x, v x, s')) (inner_join J S (\<lambda>x s'. True)))"
  shows "arithmetic_mean (map v (filter (\<lambda>x. k x = t) J))
     = Some (AVG (map (\<lambda>(t', r, s'). r) (filter (\<lambda>(t', r, s'). t' = t \<and> s' = s)
         (map (\<lambda>(x, s'). (k x, v x, s')) (inner_join J S (\<lambda>x s'. True))))))"
proof -
  from assms obtain x where x: "x \<in> set J" "k x = t" and s: "s \<in> set S"
    by (auto simp add: set_inner_join)
  from x have "x \<in> set (filter (\<lambda>x. k x = t) J)" by simp
  from length_pos_if_in_set [OF this] have ne: "map v (filter (\<lambda>x. k x = t) J) \<noteq> []" by simp
  from s have n: "0 < count_list S s" by (induction S) auto
  show ?thesis
    by (simp only: group_of_cross_join AVG_replicate [OF n] AVG_mean [OF ne])
qed

lemma join_comprehension_row:
  assumes "\<And>y. on x y \<longleftrightarrow> on' x y"
  shows "map (\<lambda>(x, y). v x y) (filter (\<lambda>(x, y). p x y) (map (Pair x) (filter (on x) ys)))
     = concat (map (\<lambda>y. if on' x y \<and> p x y then [v x y] else []) ys)"
  by (induction ys) (simp_all add: assms)

lemma join_comprehension:
  assumes "\<And>x y. on x y \<longleftrightarrow> on' x y"
  shows "map (\<lambda>(x, y). v x y) (filter (\<lambda>(x, y). p x y) (inner_join xs ys on))
     = concat (map (\<lambda>x. concat (map (\<lambda>y. if on' x y \<and> p x y then [v x y] else []) ys)) xs)"
proof (induction xs)
  case Nil
  then show ?case by (simp add: inner_join_def)
next
  case (Cons x xs)
  have j: "inner_join (x # xs) ys on = map (Pair x) (filter (on x) ys) @ inner_join xs ys on"
    by (simp add: inner_join_def)
  show ?case
    by (simp only: j map_append filter_append Cons.IH
        join_comprehension_row [of on x on', OF assms] list.map concat.simps)
qed

lemma book_title_ratings_join:
  "map (\<lambda>(br, bd). br_rating br) (filter (\<lambda>x. (case x of (br, bd) \<Rightarrow> bd_title bd) = t)
       (inner_join (books_rating db) (books_data db) (\<lambda>br bd. br_book_id br = bd_book_id bd)))
     = book_title_ratings db t"
proof -
  have b: "(\<lambda>x. (case x of (br, bd) \<Rightarrow> bd_title bd) = t) = (\<lambda>(br, bd). bd_title bd = t)"
    by (auto simp add: fun_eq_iff)
  have "map (\<lambda>(br, bd). br_rating br) (filter (\<lambda>(br, bd). bd_title bd = t)
       (inner_join (books_rating db) (books_data db) (\<lambda>br bd. br_book_id br = bd_book_id bd)))
     = book_title_ratings db t"
    unfolding book_title_ratings_def by (rule join_comprehension) auto
  then show ?thesis by (simp only: b)
qed

lemma movie_title_ratings_join:
  "map (\<lambda>(mr, mm). mr_averagerating mr) (filter (\<lambda>x. (case x of (mr, mm) \<Rightarrow> mm_primarytitle mm) = t)
       (inner_join (movies_ratings db) (movies_metadata db) (\<lambda>mr mm. mr_movie_id mr = mm_tconst mm)))
     = movie_title_ratings db t"
proof -
  have b: "(\<lambda>x. (case x of (mr, mm) \<Rightarrow> mm_primarytitle mm) = t) = (\<lambda>(mr, mm). mm_primarytitle mm = t)"
    by (auto simp add: fun_eq_iff)
  have "map (\<lambda>(mr, mm). mr_averagerating mr) (filter (\<lambda>(mr, mm). mm_primarytitle mm = t)
       (inner_join (movies_ratings db) (movies_metadata db) (\<lambda>mr mm. mr_movie_id mr = mm_tconst mm)))
     = movie_title_ratings db t"
    unfolding movie_title_ratings_def by (rule join_comprehension) auto
  then show ?thesis by (simp only: b)
qed

lemma BookOutliers_from_rows:
  "BookOutliers_from db
     = map (\<lambda>(x, s'). ((\<lambda>(br, bd). bd_title bd) x, (\<lambda>(br, bd). br_rating br) x, s'))
         (inner_join
            (inner_join (books_rating db) (books_data db) (\<lambda>br bd. br_book_id br = bd_book_id bd))
            (BookStats db) (\<lambda>x s'. True))"
  by (simp add: BookOutliers_from_def split_def)

lemma MovieOutliers_from_rows:
  "MovieOutliers_from db
     = map (\<lambda>(x, s'). ((\<lambda>(mr, mm). mm_primarytitle mm) x, (\<lambda>(mr, mm). mr_averagerating mr) x, s'))
         (inner_join
            (inner_join (movies_ratings db) (movies_metadata db) (\<lambda>mr mm. mr_movie_id mr = mm_tconst mm))
            (MovieStats db) (\<lambda>x s'. True))"
  by (simp add: MovieOutliers_from_def split_def)

lemma book_group_mean:
  assumes "(t, r, s) \<in> set (BookOutliers_from db)"
  shows "arithmetic_mean (book_title_ratings db t)
     = Some (AVG (map (\<lambda>(t', r, s'). r) (filter (\<lambda>(t', r, s'). t' = t \<and> s' = s)
         (BookOutliers_from db))))"
  using cross_group_mean [OF assms [unfolded BookOutliers_from_rows]]
  by (simp only: BookOutliers_from_rows [symmetric] book_title_ratings_join)

lemma movie_group_mean:
  assumes "(t, r, s) \<in> set (MovieOutliers_from db)"
  shows "arithmetic_mean (movie_title_ratings db t)
     = Some (AVG (map (\<lambda>(t', r, s'). r) (filter (\<lambda>(t', r, s'). t' = t \<and> s' = s)
         (MovieOutliers_from db))))"
  using cross_group_mean [OF assms [unfolded MovieOutliers_from_rows]]
  by (simp only: MovieOutliers_from_rows [symmetric] movie_title_ratings_join)

lemma outliers_union_entries:
  assumes "outliers_union db = Inr os" and "x \<in> set os"
  shows "(media_type x = ''Book'' \<or> media_type x = ''Movie'') \<and> \<bar>z_score x\<bar> > 2
       \<and> (\<exists>s m d. s \<in> set (stats_view db (media_type x))
             \<and> avg_rating s = Some m \<and> stddev_rating s = Some d \<and> d \<noteq> 0
             \<and> z_score x = (o_avg_rating x - m) / d
             \<and> arithmetic_mean (title_ratings db (media_type x) (media_title x))
                 = Some (o_avg_rating x))"
proof -
  from outliers_union_parts [OF assms(1)] obtain bs ms where
    b: "outliers_cte ''Book'' (BookOutliers_from db) = Inr bs"
    and m: "outliers_cte ''Movie'' (MovieOutliers_from db) = Inr ms"
    and os: "os = order_by_desc z_score (bs @ ms)" by blast
  from assms(2) os have "x \<in> set bs \<or> x \<in> set ms" by (simp add: order_by_desc_set)
  then show ?thesis
  proof
    assume "x \<in> set bs"
    from outliers_cte_entries [OF b this] obtain s m d r where
      l: "media_type x = ''Book''" and z: "\<bar>z_score x\<bar> > 2"
      and g: "(media_title x, r, s) \<in> set (BookOutliers_from db)"
      and st: "avg_rating s = Some m" "stddev_rating s = Some d" "d \<noteq> 0"
        "z_score x = (o_avg_rating x - m) / d"
      and a: "o_avg_rating x = AVG (map (\<lambda>(t', r, s'). r)
          (filter (\<lambda>(t', r, s'). t' = media_title x \<and> s' = s) (BookOutliers_from db)))"
      by (elim conjE exE)
    from BookOutliers_from_stats [OF g] l have v: "s \<in> set (stats_view db (media_type x))"
      by (simp add: stats_view_def)
    from book_group_mean [OF g] a l
    have "arithmetic_mean (title_ratings db (media_type x) (media_title x)) = Some (o_avg_rating x)"
      by (simp add: title_ratings_def)
    with l z v st show ?thesis by blast
  next
    assume "x \<in> set ms"
    from outliers_cte_entries [OF m this] obtain s m d r where
      l: "media_type x = ''Movie''" and z: "\<bar>z_score x\<bar> > 2"
      and g: "(media_title x, r, s) \<in> set (MovieOutliers_from db)"
      and st: "avg_rating s = Some m" "stddev_rating s = Some d" "d \<noteq> 0"
        "z_score x = (o_avg_rating x - m) / d"
      and a: "o_avg_rating x = AVG (map (\<lambda>(t', r, s'). r)
          (filter (\<lambda>(t', r, s'). t' = media_title x \<and> s' = s) (MovieOutliers_from db)))"
      by (elim conjE exE)
    from MovieOutliers_from_stats [OF g] l have v: "s \<in> set (stats_view db (media_type x))"
      by (simp add: stats_view_def)
    from movie_group_mean [OF g] a l
    have "arithmetic_mean (title_ratings db (media_type x) (media_title x)) = Some (o_avg_rating x)"
      by (simp add: title_ratings_def)
    with l z v st show ?thesis by blast
  qed
qed

lemma outliers_response:
  assumes "fst (BookAndMovieOutliers c) = respond 200 (JArray rows)"
  shows "\<exists>os. outliers_union (tables c) = Inr os \<and> rows = map outlier_row os"
proof (cases "fault c")
  case None
  then have "fst (BookAndMovieOutliers c)
      = (case outliers_union (tables c) of
           Inl e \<Rightarrow> respond 500 (JObject [(''error'', ''Internal Server Error'')])
         | Inr os \<Rightarrow> respond 200 (JArray (map outlier_row os)))"
    by (simp add: BookAndMovieOutliers_def adaptations_query_ok rows_or_500_def run_statement_def
        select_outliers_def split: sum.splits)
  with assms show ?thesis by (auto simp add: respond_def split: sum.splits)
next
  case (Some e)
  then have "fst (BookAndMovieOutliers c) = respond 500 (JObject [(''error'', ''Internal Server Error'')])"
    by (simp add: BookAndMovieOutliers_def connection_query_def rows_or_500_def)
  with assms show ?thesis by (simp add: respond_def)
qed

lemma eval_outliers:
  "outliers_union db_outliers
     = Inr [\<lparr>media_type = ''Book'', media_title = ''Dune'', o_avg_rating = 5, z_score = 4\<rparr>,
            \<lparr>media_type = ''Movie'', media_title = ''Dune'', o_avg_rating = 5, z_score = 4\<rparr>,
            \<lparr>media_type = ''Book'', media_title = ''Ulysses'', o_avg_rating = 1, z_score = - 4\<rparr>]"
  by (simp add: outliers_union_def outliers_cte_def BookOutliers_from_def MovieOutliers_from_def
      db_outliers_def db_empty_def inner_join_def AVG_def z_expr_def order_by_desc_def)

lemma eval_outliers_response:
  "fst (BookAndMovieOutliers conn_outliers) = respond 200 (JArray rows_outliers)"
proof -
  have h: "fault conn_outliers = None" by (simp add: conn_outliers_def)
  have t: "tables conn_outliers = db_outliers" by (simp add: conn_outliers_def)
  show ?thesis
    by (simp add: BookAndMovieOutliers_def adaptations_query_ok [OF h] rows_or_500_def
        run_statement_def t select_outliers_def eval_outliers outlier_row_def rows_outliers_def)
qed

lemma eval_ratings:
  "outliers_union db_ratings
     = Inr [\<lparr>media_type = ''Book'', media_title = ''Dune'', o_avg_rating = 14 / 3, z_score = 10 / 3\<rparr>,
            \<lparr>media_type = ''Movie'', media_title = ''Heat'', o_avg_rating = 3 / 2, z_score = - (9 / 4)\<rparr>]"
  by (simp add: outliers_union_def outliers_cte_def BookOutliers_from_def MovieOutliers_from_def
      db_ratings_def db_empty_def inner_join_def AVG_def z_expr_def order_by_desc_def)

lemma eval_ratings_response:
  "fst (BookAndMovieOutliers conn_ratings) = respond 200 (JArray rows_ratings)"
proof -
  have h: "fault conn_ratings = None" by (simp add: conn_ratings_def)
  have t: "tables conn_ratings = db_ratings" by (simp add: conn_ratings_def)
  show ?thesis
    by (simp add: BookAndMovieOutliers_def adaptations_query_ok [OF h] rows_or_500_def
        run_statement_def t select_outliers_def eval_ratings outlier_row_def rows_ratings_def)
qed

lemma eval_title_ratings:
  "title_ratings db_ratings ''Book'' ''Dune'' = [5, 4, 5]"
  "title_ratings db_ratings ''Book'' ''Emma'' = [3, 3]"
  "title_ratings db_ratings ''Movie'' ''Heat'' = [1, 2]"
  by (simp_all add: title_ratings_def book_title_ratings_def movie_title_ratings_def
      db_ratings_def db_empty_def)

text \<open>
  C2. Every entry of the list returned by BookAndMovieOutliers has a z-score of magnitude
  above 2. The z-score is the average rating of the title minus the mean, divided by the
  standard deviation, both taken from a row of BookStats for a book and of MovieStats for a
  movie. The average rating of the title, returned in the field \<^verbatim>\<open>avg_rating\<close>, is the
  arithmetic mean of the ratings that the tables hold for the title: of every review of a
  book of that title, of every rating row of a movie of that title.
\<close>

theorem outliers_exceed_two:
  assumes "fst (BookAndMovieOutliers c) = respond 200 (JArray rows)"
  shows "\<forall>r\<in>set rows. \<exists>x s m d.
           r = outlier_row x
           \<and> map_of r ''z_score'' = Some (SNum (z_score x)) \<and> \<bar>z_score x\<bar> > 2
           \<and> map_of r ''avg_rating'' = Some (SNum (o_avg_rating x))
           \<and> (media_type x = ''Book'' \<or> media_type x = ''Movie'')
           \<and> s \<in> set (stats_view (tables c) (media_type x))
           \<and> avg_rating s = Some m \<and> stddev_rating s = Some d \<and> d \<noteq> 0
           \<and> z_score x = (o_avg_rating x - m) / d
           \<and> arithmetic_mean (title_ratings (tables c) (media_type x) (media_title x))
               = Some (o_avg_rating x)"
proof
  fix r assume r: "r \<in> set rows"
  from outliers_response [OF assms] obtain os where
    os: "outliers_union (tables c) = Inr os" and rows: "rows = map outlier_row os" by blast
  from r rows obtain x where x: "x \<in> set os" and rx: "r = outlier_row x" by auto
  have z: "map_of r ''z_score'' = Some (SNum (z_score x))"
    and a: "map_of r ''avg_rating'' = Some (SNum (o_avg_rating x))"
    by (simp_all add: rx outlier_row_def)
  from outliers_union_entries [OF os x] obtain s m d where
    e: "media_type x = ''Book'' \<or> media_type x = ''Movie''" "\<bar>z_score x\<bar> > 2"
      "s \<in> set (stats_view (tables c) (media_type x))"
      "avg_rating s = Some m" "stddev_rating s = Some d" "d \<noteq> 0"
      "z_score x = (o_avg_rating x - m) / d"
      "arithmetic_mean (title_ratings (tables c) (media_type x) (media_title x))
         = Some (o_avg_rating x)"
    by (elim conjE exE)
  from rx z a e
  show "\<exists>x s m d.
           r = outlier_row x
           \<and> map_of r ''z_score'' = Some (SNum (z_score x)) \<and> \<bar>z_score x\<bar> > 2
           \<and> map_of r ''avg_rating'' = Some (SNum (o_avg_rating x))
           \<and> (media_type x = ''Book'' \<or> media_type x = ''Movie'')
           \<and> s \<in> set (stats_view (tables c) (media_type x))
           \<and> avg_rating s = Some m \<and> stddev_rating s = Some d \<and> d \<noteq> 0
           \<and> z_score x = (o_avg_rating x - m) / d
           \<and> arithmetic_mean (title_ratings (tables c) (media_type x) (media_title x))
               = Some (o_avg_rating x)"
    by (intro exI [of _ x] exI [of _ s] exI [of _ m] exI [of _ d] conjI)
qed

theorem outliers_exceed_two_witness:
  "fst (BookAndMovieOutliers conn_ratings) = respond 200 (JArray rows_ratings)
   \<and> length rows_ratings = 2
   \<and> title_ratings (tables conn_ratings) ''Book'' ''Dune'' = [5, 4, 5]
   \<and> title_ratings (tables conn_ratings) ''Movie'' ''Heat'' = [1, 2]
   \<and> (\<exists>x. rows_ratings ! 0 = outlier_row x \<and> \<bar>z_score x\<bar> > 2
        \<and> media_type x = ''Book'' \<and> media_title x = ''Dune''
        \<and> arithmetic_mean [5, 4, 5] = Some (o_avg_rating x) \<and> o_avg_rating x = 14 / 3)
   \<and> (\<exists>x. rows_ratings ! 1 = outlier_row x \<and> \<bar>z_score x\<bar> > 2
        \<and> media_type x = ''Movie'' \<and> media_title x = ''Heat''
        \<and> arithmetic_mean [1, 2] = Some (o_avg_rating x) \<and> o_avg_rating x = 3 / 2)"
proof -
  note e = eval_ratings_response
  have t: "tables conn_ratings = db_ratings" by (simp add: conn_ratings_def)
  have p: "\<exists>x. r = outlier_row x \<and> \<bar>z_score x\<bar> > 2
        \<and> arithmetic_mean (title_ratings db_ratings (media_type x) (media_title x))
            = Some (o_avg_rating x)"
    if "r \<in> set rows_ratings" for r
  proof -
    from that outliers_exceed_two [OF e] obtain x s m d where "r = outlier_row x" "\<bar>z_score x\<bar> > 2"
      "arithmetic_mean (title_ratings (tables conn_ratings) (media_type x) (media_title x))
         = Some (o_avg_rating x)"
      by blast
    then show ?thesis by (simp only: t) blast
  qed
  have r0: "\<exists>x. rows_ratings ! 0 = outlier_row x \<and> \<bar>z_score x\<bar> > 2
        \<and> media_type x = ''Book'' \<and> media_title x = ''Dune''
        \<and> arithmetic_mean [5, 4, 5] = Some (o_avg_rating x) \<and> o_avg_rating x = 14 / 3"
  proof -
    have "rows_ratings ! 0 \<in> set rows_ratings" by (simp add: rows_ratings_def)
    from p [OF this] obtain x where x: "rows_ratings ! 0 = outlier_row x" "\<bar>z_score x\<bar> > 2"
      "arithmetic_mean (title_ratings db_ratings (media_type x) (media_title x)) = Some (o_avg_rating x)"
      by blast
    from x(1) have f: "media_type x = ''Book''" "media_title x = ''Dune''" "o_avg_rating x = 14 / 3"
      by (simp_all add: rows_ratings_def outlier_row_def)
    from x f show ?thesis by (intro exI [of _ x]) (simp add: eval_title_ratings)
  qed
  have r1: "\<exists>x. rows_ratings ! 1 = outlier_row x \<and> \<bar>z_score x\<bar> > 2
        \<and> media_type x = ''Movie'' \<and> media_title x = ''Heat''
        \<and> arithmetic_mean [1, 2] = Some (o_avg_rating x) \<and> o_avg_rating x = 3 / 2"
  proof -
    have "rows_ratings ! 1 \<in> set rows_ratings" by (simp add: rows_ratings_def)
    from p [OF this] obtain x where x: "rows_ratings ! 1 = outlier_row x" "\<bar>z_score x\<bar> > 2"
      "arithmetic_mean (title_ratings db_ratings (media_type x) (media_title x)) = Some (o_avg_rating x)"
      by blast
    from x(1) have f: "media_type x = ''Movie''" "media_title x = ''Heat''" "o_avg_rating x = 3 / 2"
      by (simp_all add: rows_ratings_def outlier_row_def)
    from x f show ?thesis by (intro exI [of _ x]) (simp add: eval_title_ratings)
  qed
  have l: "length rows_ratings = 2" by (simp add: rows_ratings_def)
  have t1: "title_ratings (tables conn_ratings) ''Book'' ''Dune'' = [5, 4, 5]"
    and t2: "title_ratings (tables conn_ratings) ''Movie'' ''Heat'' = [1, 2]"
    by (simp_all only: t eval_title_ratings)
  from e l t1 t2 r0 r1 show ?thesis by (intro conjI)
qed

text \<open>
  C3, as stated, fails: a book and a movie of the same title, average and z-score give two
  different rows, told apart by the field media_type.
\<close>

theorem outliers_unlabeled_counterexample:
  "\<not> unlabeled (body (fst (BookAndMovieOutliers conn_outliers)))"
  by (simp add: eval_outliers_response respond_def entry_of_def rows_outliers_def)

text \<open>
  C3, amended. The list returned by BookAndMovieOutliers holds the book outliers and the movie
  outliers together, each as often as its CTE yields it, in descending order of z_score;
  every row of a book carries \<^verbatim>\<open>media_type = 'Book'\<close> and every row of a movie
  \<^verbatim>\<open>media_type = 'Movie'\<close>.
\<close>

theorem outliers_labelled_sorted:
  assumes "fst (BookAndMovieOutliers c) = respond 200 (JArray rows)"
  shows "\<exists>bs ms os.
           outliers_cte ''Book'' (BookOutliers_from (tables c)) = Inr bs
           \<and> outliers_cte ''Movie'' (MovieOutliers_from (tables c)) = Inr ms
           \<and> rows = map outlier_row os
           \<and> mset os = mset bs + mset ms
           \<and> sorted_wrt (\<lambda>a b. z_score b \<le> z_score a) os
           \<and> (\<forall>x\<in>set bs. map_of (outlier_row x) ''media_type'' = Some (SText ''Book''))
           \<and> (\<forall>x\<in>set ms. map_of (outlier_row x) ''media_type'' = Some (SText ''Movie''))"
proof -
  from outliers_response [OF assms] obtain os where
    os: "outliers_union (tables c) = Inr os" and rows: "rows = map outlier_row os" by blast
  from outliers_union_parts [OF os] obtain bs ms where
    b: "outliers_cte ''Book'' (BookOutliers_from (tables c)) = Inr bs"
    and m: "outliers_cte ''Movie'' (MovieOutliers_from (tables c)) = Inr ms"
    and o: "os = order_by_desc z_score (bs @ ms)" by blast
  have ms: "mset os = mset bs + mset ms" by (simp add: o order_by_desc_def)
  have so: "sorted_wrt (\<lambda>a b. z_score b \<le> z_score a) os"
    unfolding o by (rule order_by_desc_sorted)
  have lb: "\<forall>x\<in>set bs. map_of (outlier_row x) ''media_type'' = Some (SText ''Book'')"
    using outliers_cte_entries [OF b] by (simp add: outlier_row_def)
  have lm: "\<forall>x\<in>set ms. map_of (outlier_row x) ''media_type'' = Some (SText ''Movie'')"
    using outliers_cte_entries [OF m] by (simp add: outlier_row_def)
  from b m rows ms so lb lm show ?thesis by blast
qed

theorem outliers_labelled_sorted_witness:
  "fst (BookAndMovieOutliers conn_outliers) = respond 200 (JArray rows_outliers)
   \<and> length rows_outliers = 3
   \<and> (\<exists>os. rows_outliers = map outlier_row os \<and> sorted_wrt (\<lambda>a b. z_score b \<le> z_score a) os)"
proof -
  note e = eval_outliers_response
  from outliers_labelled_sorted [OF e] obtain bs ms os where
    r: "rows_outliers = map outlier_row os"
    and s: "sorted_wrt (\<lambda>a b. z_score b \<le> z_score a) os"
    by (elim exE conjE)
  from r s have "\<exists>os. rows_outliers = map outlier_row os \<and> sorted_wrt (\<lambda>a b. z_score b \<le> z_score a) os"
    by (intro exI conjI)
  with e show ?thesis by (simp add: rows_outliers_def)
qed

end
